theory Spec2Isabelle
  imports Complex_Main
begin

section \<open>The platform: JavaScript values, errors, responses, local storage\<close>

text \<open>
  The client runs in a browser. The parts of the browser the code relies on are modelled
  here: JavaScript values as far as \<open>JSON.parse\<close> produces them (plus \<open>undefined\<close>, which
  reading a missing property yields), truthiness, conversion to a string, property reads,
  exceptions, HTTP responses and \<open>localStorage\<close>. A number is kept as the text that
  \<open>String\<close> renders for it (\<open>0\<close>, \<open>-1.5\<close>, \<open>1e+21\<close>), which fixes the number, the sign of
  zero apart; the code never computes with one.

  \<open>JSON.parse\<close> and \<open>JSON.stringify\<close> are functions of the browser, not of this repository;
  every function that calls them takes them as the parameters \<open>P\<close> and \<open>S\<close>. A rejected
  promise and a thrown exception are the left injection of a sum.
\<close>

datatype json =
    JUndef
  | JNull
  | JBool bool
  | JNum string
  | JStr string
  | JArr "json list"
  | JObj "(string \<times> json) list"

datatype jserror = JSError (err_name: string) (err_message: string)

type_synonym 'a result = "jserror + 'a"

text \<open>\<open>!!v\<close>: the values JavaScript takes for false in a condition.\<close>

fun truthy :: "json \<Rightarrow> bool" where
  "truthy JUndef = False"
| "truthy JNull = False"
| "truthy (JBool b) = b"
| "truthy (JNum s) = (s \<noteq> ''0'' \<and> s \<noteq> ''NaN'')"
| "truthy (JStr s) = (s \<noteq> [])"
| "truthy (JArr xs) = True"
| "truthy (JObj kvs) = True"

text \<open>\<open>!!s\<close> for the result of \<open>localStorage.getItem\<close>, a string or null.\<close>

fun truthy_item :: "string option \<Rightarrow> bool" where
  "truthy_item None = False"
| "truthy_item (Some s) = (s \<noteq> [])"

text \<open>
  The decimal digits of a natural number: what a template literal renders for
  \<open>response.status\<close> (an unsigned short).
\<close>

function str_of_nat :: "nat \<Rightarrow> string" where
  "str_of_nat n =
     (if n < 10 then [''0123456789'' ! n]
      else str_of_nat (n div 10) @ [''0123456789'' ! (n mod 10)])"
  by pat_completeness auto
termination
  by (relation "measure id") auto

declare str_of_nat.simps [simp del]

text \<open>\<open>ss.join(sep)\<close>.\<close>

fun join :: "string list \<Rightarrow> string \<Rightarrow> string" where
  "join [] sep = []"
| "join [s] sep = s"
| "join (s # t # ss) sep = s @ sep @ join (t # ss) sep"

text \<open>
  \<open>String(v)\<close>, which a template literal, \<open>new Error(v)\<close> and \<open>localStorage.setItem\<close> apply
  to a value.
\<close>

fun js_string :: "json \<Rightarrow> string" where
  "js_string JUndef = ''undefined''"
| "js_string JNull = ''null''"
| "js_string (JBool b) = (if b then ''true'' else ''false'')"
| "js_string (JNum s) = s"
| "js_string (JStr s) = s"
| "js_string (JArr xs) =
     join (map (\<lambda>x. if x = JNull \<or> x = JUndef then [] else js_string x) xs) '',''"
| "js_string (JObj kvs) = ''[object Object]''"

text \<open>
  \<open>v.k\<close> for the property names the code reads (\<open>detail\<close>, \<open>email\<close>, \<open>access_token\<close>,
  \<open>user\<close>, \<open>has_business\<close>, \<open>status\<close>, \<open>message\<close>, \<open>id\<close>, \<open>task_id\<close>, \<open>document_id\<close>,
  \<open>filename\<close>): none of them is a property of a primitive or of an array, so only an
  object has them, and reading them from \<open>null\<close> or \<open>undefined\<close> throws a TypeError (the
  wording of the message is V8's). An object lists its properties, the first binding of a
  name being its value.
\<close>

definition null_read :: "string \<Rightarrow> string \<Rightarrow> jserror" where
  "null_read v k =
     JSError ''TypeError''
       (''Cannot read properties of '' @ v @ '' (reading '' @ [CHR 0x27] @ k @ [CHR 0x27] @ '')'')"

fun get :: "json \<Rightarrow> string \<Rightarrow> json result" where
  "get JUndef k = Inl (null_read ''undefined'' k)"
| "get JNull k = Inl (null_read ''null'' k)"
| "get (JObj kvs) k = Inr (case map_of kvs k of None \<Rightarrow> JUndef | Some v \<Rightarrow> v)"
| "get (JBool b) k = Inr JUndef"
| "get (JNum s) k = Inr JUndef"
| "get (JStr s) k = Inr JUndef"
| "get (JArr xs) k = Inr JUndef"

text \<open>\<open>s.startsWith(t)\<close> and \<open>s.includes(t)\<close>.\<close>

fun starts_with :: "string \<Rightarrow> string \<Rightarrow> bool" where
  "starts_with s [] = True"
| "starts_with [] (c # cs) = False"
| "starts_with (x # xs) (c # cs) = (x = c \<and> starts_with xs cs)"

fun str_includes :: "string \<Rightarrow> string \<Rightarrow> bool" where
  "str_includes [] t = (t = [])"
| "str_includes (x # xs) t = (starts_with (x # xs) t \<or> str_includes xs t)"

text \<open>
  A \<open>Response\<close>: the status line, the \<open>content-type\<close> header and the text of the body.
  \<open>response.text()\<close> is \<open>bodyText\<close>, \<open>response.json()\<close> is \<open>P\<close> applied to it.
\<close>

record response =
  status :: nat
  statusText :: string
  contentType :: "string option"
  bodyText :: string

definition ok :: "response \<Rightarrow> bool" where
  "ok r = (200 \<le> status r \<and> status r \<le> 299)"

text \<open>What \<open>await fetch(...)\<close> comes back with: a response, or a rejection (network
  failure, or the abort of a timed-out request).\<close>

datatype fetch_outcome = Resolves response | Rejects jserror

type_synonym storage = "string \<rightharpoonup> string"

definition getItem :: "storage \<Rightarrow> string \<Rightarrow> string option" where
  "getItem st k = st k"

definition setItem :: "storage \<Rightarrow> string \<Rightarrow> string \<Rightarrow> storage" where
  "setItem st k v = st(k \<mapsto> v)"

definition removeItem :: "storage \<Rightarrow> string \<Rightarrow> storage" where
  "removeItem st k = st(k := None)"

text \<open>\<open>JSON.stringify(v)\<close> handed to \<open>setItem\<close>: \<open>stringify\<close> of \<open>undefined\<close> is
  \<open>undefined\<close>, which \<open>setItem\<close> stores as the string \<open>undefined\<close>.\<close>

definition stringify_item :: "(json \<Rightarrow> string) \<Rightarrow> json \<Rightarrow> string" where
  "stringify_item S v = (if v = JUndef then ''undefined'' else S v)"

section \<open>\<open>config.ts\<close>\<close>

definition maxFileSize :: nat where
  "maxFileSize = 10 * 1024 * 1024"

definition acceptedFileTypes :: "string list" where
  "acceptedFileTypes =
     [''.pdf'', ''.doc'', ''.docx'', ''.txt'', ''.rtf'', ''.csv'', ''.xlsx'', ''.xls'']"

definition polling_interval :: nat where
  "polling_interval = 2000"

definition polling_maxRetries :: nat where
  "polling_maxRetries = 150"

definition polling_backoffMultiplier :: rat where
  "polling_backoffMultiplier = 3 / 2"

section \<open>\<open>AuthAPI\<close> (the authentication client)\<close>

text \<open>
  The static methods of \<open>AuthAPI\<close>, in a browser (\<open>typeof window !== "undefined"\<close> holds).
  A method that touches \<open>localStorage\<close> takes the storage and returns it.
\<close>

definition getToken :: "storage \<Rightarrow> string option" where
  "getToken st = getItem st ''auth_token''"

definition getUserProfile :: "(string \<Rightarrow> json result) \<Rightarrow> storage \<Rightarrow> json \<times> storage" where
  "getUserProfile P st =
     (case getItem st ''user_profile'' of
        None \<Rightarrow> (JNull, st)
      | Some profile \<Rightarrow>
          if profile = [] then (JNull, st)
          else (case P profile of
                  Inl e \<Rightarrow> (JNull, removeItem st ''user_profile'')
                | Inr parsed \<Rightarrow>
                    (case get parsed ''email'' of
                       Inl e \<Rightarrow> (JNull, removeItem st ''user_profile'')
                     | Inr email \<Rightarrow> (parsed, st))))"

definition AuthAPI_isAuthenticated :: "(string \<Rightarrow> json result) \<Rightarrow> storage \<Rightarrow> bool \<times> storage" where
  "AuthAPI_isAuthenticated P st =
     (let hasToken = truthy_item (getToken st);
          (profile, st') = getUserProfile P st;
          hasProfile = truthy profile
      in (hasToken \<and> hasProfile, st'))"

text \<open>
  \<open>logout\<close>: the request is sent only for a truthy token; whatever it throws is caught and
  logged; the \<open>finally\<close> block removes both keys.
\<close>

definition AuthAPI_logout :: "fetch_outcome \<Rightarrow> storage \<Rightarrow> unit result \<times> storage" where
  "AuthAPI_logout fo st =
     (let tried = (if truthy_item (getToken st)
                   then (case fo of Rejects e \<Rightarrow> Inl e | Resolves r \<Rightarrow> Inr ())
                   else Inr ());
          caught = (case tried of Inl e \<Rightarrow> Inr () | Inr u \<Rightarrow> Inr u);
          st' = removeItem (removeItem st ''auth_token'') ''user_profile''
      in (caught, st'))"

definition Error :: "string \<Rightarrow> jserror" where
  "Error m = JSError ''Error'' m"

text \<open>
  Reading the body a second time: \<open>response.text()\<close> after \<open>response.json()\<close> has consumed
  it rejects with a TypeError (V8's wording).
\<close>

definition body_already_read :: jserror where
  "body_already_read =
     JSError ''TypeError''
       (''Failed to execute '' @ [CHR 0x27] @ ''text'' @ [CHR 0x27] @ '' on '' @ [CHR 0x27]
          @ ''Response'' @ [CHR 0x27] @ '': body stream already read'')"

text \<open>
  \<open>AuthAPI.handleResponse\<close>: an HTML answer is refused with a message chosen by the
  status; otherwise the body is parsed. When parsing fails, the \<open>catch\<close> block logs
  \<open>await response.text()\<close> before it throws its own error, and that second read of the
  body is what rejects.
\<close>

definition AuthAPI_handleResponse :: "(string \<Rightarrow> json result) \<Rightarrow> response \<Rightarrow> json result" where
  "AuthAPI_handleResponse P r =
     (if (case contentType r of None \<Rightarrow> False
          | Some ct \<Rightarrow> ct \<noteq> [] \<and> str_includes ct ''text/html'')
      then (if status r = 404
            then Inl (Error ''API endpoint not found. Please check if the backend server is running and the URL is correct.'')
            else if status r \<ge> 500
            then Inl (Error ''Server error occurred. Please try again later.'')
            else Inl (Error ''Unexpected server response. Please check your network connection and try again.''))
      else (case P (bodyText r) of
              Inr v \<Rightarrow> Inr v
            | Inl err \<Rightarrow> Inl body_already_read))"

text \<open>The message \<open>AuthAPI.login\<close> builds from the text of a non-2xx answer.\<close>

definition login_errorMessage :: "(string \<Rightarrow> json result) \<Rightarrow> string \<Rightarrow> string" where
  "login_errorMessage P errorText =
     (case P errorText of
        Inl e \<Rightarrow> (if errorText \<noteq> [] then errorText else ''Login failed'')
      | Inr errorData \<Rightarrow>
          (case get errorData ''detail'' of
             Inl e \<Rightarrow> (if errorText \<noteq> [] then errorText else ''Login failed'')
           | Inr detail \<Rightarrow>
               if detail = JStr ''LOGIN_BAD_CREDENTIALS'' then ''Invalid email or password''
               else if detail = JStr ''LOGIN_USER_NOT_VERIFIED''
               then ''Please verify your email before logging in''
               else if truthy detail then js_string detail else ''Login failed''))"

definition AuthAPI_login ::
  "(string \<Rightarrow> json result) \<Rightarrow> (json \<Rightarrow> string) \<Rightarrow> fetch_outcome \<Rightarrow> storage \<Rightarrow> json result \<times> storage" where
  "AuthAPI_login P S fo st =
     (case fo of
        Rejects e \<Rightarrow> (Inl e, st)
      | Resolves r \<Rightarrow>
          if \<not> ok r then (Inl (Error (login_errorMessage P (bodyText r))), st)
          else (case AuthAPI_handleResponse P r of
                  Inl e \<Rightarrow> (Inl e, st)
                | Inr result \<Rightarrow>
                    (case get result ''access_token'' of
                       Inl e \<Rightarrow> (Inl e, st)
                     | Inr access_token \<Rightarrow>
                         if truthy access_token
                         then (case get result ''user'' of
                                 Inl e \<Rightarrow> (Inl e, setItem st ''auth_token'' (js_string access_token))
                               | Inr u \<Rightarrow>
                                   (Inr result,
                                    setItem (setItem st ''auth_token'' (js_string access_token))
                                      ''user_profile'' (stringify_item S u)))
                         else (Inr result, st))))"

definition AuthAPI_getCurrentUser ::
  "(string \<Rightarrow> json result) \<Rightarrow> (json \<Rightarrow> string) \<Rightarrow> fetch_outcome \<Rightarrow> storage \<Rightarrow> json result \<times> storage" where
  "AuthAPI_getCurrentUser P S fo st =
     (case fo of
        Rejects e \<Rightarrow> (Inl e, st)
      | Resolves r \<Rightarrow>
          if \<not> ok r
          then (case P (bodyText r) of
                  Inl e \<Rightarrow> (Inl e, st)
                | Inr errorData \<Rightarrow>
                    (case get errorData ''detail'' of
                       Inl e \<Rightarrow> (Inl e, st)
                     | Inr detail \<Rightarrow>
                         (Inl (Error (if truthy detail then js_string detail
                                      else ''Failed to get user profile'')), st)))
          else (case P (bodyText r) of
                  Inl e \<Rightarrow> (Inl e, st)
                | Inr result \<Rightarrow> (Inr result, setItem st ''user_profile'' (stringify_item S result))))"

section \<open>\<open>ChatAPI\<close>, \<open>BusinessAPI\<close> and \<open>DocumentAPI\<close> (the other HTTP client wrappers)\<close>

text \<open>
  \<open>handleResponse\<close> of \<open>ChatAPI\<close> and of \<open>BusinessAPI\<close> (the same text in both classes). For
  a non-2xx answer a body that does not parse is replaced by the object
  \<open>{ detail: 'Unknown error' }\<close>.
\<close>

definition ChatAPI_handleResponse :: "(string \<Rightarrow> json result) \<Rightarrow> response \<Rightarrow> json result" where
  "ChatAPI_handleResponse P r =
     (if \<not> ok r
      then (let errorData = (case P (bodyText r) of
                               Inl e \<Rightarrow> JObj [(''detail'', JStr ''Unknown error'')]
                             | Inr v \<Rightarrow> v)
            in case get errorData ''detail'' of
                 Inl e \<Rightarrow> Inl e
               | Inr detail \<Rightarrow>
                   Inl (Error (if truthy detail then js_string detail
                               else ''HTTP '' @ str_of_nat (status r) @ '': '' @ statusText r)))
      else P (bodyText r))"

definition BusinessAPI_handleResponse :: "(string \<Rightarrow> json result) \<Rightarrow> response \<Rightarrow> json result" where
  "BusinessAPI_handleResponse P r =
     (if \<not> ok r
      then (let errorData = (case P (bodyText r) of
                               Inl e \<Rightarrow> JObj [(''detail'', JStr ''Unknown error'')]
                             | Inr v \<Rightarrow> v)
            in case get errorData ''detail'' of
                 Inl e \<Rightarrow> Inl e
               | Inr detail \<Rightarrow>
                   Inl (Error (if truthy detail then js_string detail
                               else ''HTTP '' @ str_of_nat (status r) @ '': '' @ statusText r)))
      else P (bodyText r))"

text \<open>
  \<open>hasRegisteredBusiness\<close>: the request, \<open>handleResponse\<close> and the read of
  \<open>has_business\<close> are all inside the \<open>try\<close>; the \<open>catch\<close> returns \<open>false\<close>.
\<close>

definition hasRegisteredBusiness :: "(string \<Rightarrow> json result) \<Rightarrow> fetch_outcome \<Rightarrow> json result" where
  "hasRegisteredBusiness P fo =
     (let tried = (case fo of
                     Rejects e \<Rightarrow> Inl e
                   | Resolves r \<Rightarrow>
                       (case BusinessAPI_handleResponse P r of
                          Inl e \<Rightarrow> Inl e
                        | Inr data \<Rightarrow> get data ''has_business''))
      in case tried of Inl e \<Rightarrow> Inr (JBool False) | Inr v \<Rightarrow> Inr v)"

text \<open>
  One request of \<open>DocumentAPI.getTaskStatus\<close>, as far as its \<open>try\<close> block sees it: a
  rejected \<open>fetch\<close> and the error built from a non-2xx answer are thrown inside the
  \<open>try\<close> (\<open>Caught\<close>); for a 2xx answer the promise \<open>response.json()\<close> is returned without
  \<open>await\<close>, so its value or its rejection is the result of the call (\<open>Returned\<close>).
\<close>

datatype attempt = Caught jserror | Returned "json result"

definition status_request :: "(string \<Rightarrow> json result) \<Rightarrow> fetch_outcome \<Rightarrow> attempt" where
  "status_request P fo =
     (case fo of
        Rejects e \<Rightarrow> Caught e
      | Resolves r \<Rightarrow>
          if \<not> ok r
          then (let errorData = (case P (bodyText r) of Inl e \<Rightarrow> JObj [] | Inr v \<Rightarrow> v)
                in case get errorData ''detail'' of
                     Inl e \<Rightarrow> Caught e
                   | Inr detail \<Rightarrow>
                       Caught (Error (if truthy detail then js_string detail
                                      else ''HTTP '' @ str_of_nat (status r))))
          else Returned (P (bodyText r)))"

text \<open>
  The effects the pages and the session controller have on the outside: notifications
  (title and description), navigation, the pause inside \<open>getTaskStatus\<close>, the timers of
  the documents page (delay in ms), the calls of \<open>loadDocuments\<close>, the calls of \<open>setFiles\<close>
  that give a file a new status, the upload request of a file, and the first call of
  \<open>pollTaskStatus\<close> for a task. \<open>File\<close> is the browser's \<open>File\<close> as far as the page reads
  it, \<open>upload_status\<close> the status of an \<open>UploadedFile\<close>.
\<close>

record File =
  file_name :: string
  file_size :: nat
  file_type :: string

datatype upload_status = St_uploading | St_success | St_error | St_processing

datatype effect =
    ToastSuccess string "string option"
  | ToastError string "string option"
  | RouterPush string
  | Sleep nat
  | SetTimeoutPoll rat
  | SetTimeoutLoadDocuments nat json
  | LoadDocuments json
  | SetFiles string upload_status
  | UploadRequest File json
  | StartPoll json string

text \<open>
  \<open>getTaskStatus(taskId, retryCount)\<close>: the outcomes of the requests it sends are read
  from a list, one per request; with none left the call is still waiting (\<open>None\<close>). A
  caught error is retried, after \<open>1000 * (retryCount + 1)\<close> ms, while \<open>retryCount < 3\<close>
  and the error is an abort or its message contains \<open>fetch\<close>.
\<close>

fun getTaskStatus ::
  "(string \<Rightarrow> json result) \<Rightarrow> fetch_outcome list \<Rightarrow> nat \<Rightarrow> effect list \<times> json result option" where
  "getTaskStatus P [] retryCount = ([], None)"
| "getTaskStatus P (fo # fos) retryCount =
     (case status_request P fo of
        Returned res \<Rightarrow> ([], Some res)
      | Caught error \<Rightarrow>
          if retryCount < 3 \<and> (err_name error = ''AbortError'' \<or> str_includes (err_message error) ''fetch'')
          then (let (fx, res) = getTaskStatus P fos (retryCount + 1)
                in (Sleep (1000 * (retryCount + 1)) # fx, res))
          else ([], Some (Inl error)))"

section \<open>The session controller (\<open>auth-context.tsx\<close>) and the login page\<close>

text \<open>
  The session: the React state \<open>user\<close> and \<open>isLoading\<close> of the provider, and the local
  storage it shares with the other tabs. \<open>isAuthenticated\<close> is computed from it on every
  render.
\<close>

record session =
  user :: json
  isLoading :: bool
  store :: storage

definition isAuthenticated :: "session \<Rightarrow> bool" where
  "isAuthenticated s = (truthy (user s) \<and> truthy_item (getToken (store s)))"

record storage_event =
  key :: "string option"
  newValue :: "string option"

definition handleStorageChange :: "(string \<Rightarrow> json result) \<Rightarrow> storage_event \<Rightarrow> session \<Rightarrow> session" where
  "handleStorageChange P e s =
     (if key e = Some ''auth_token''
      then (if newValue e = None then s\<lparr>user := JNull\<rparr>
            else if truthy_item (newValue e) \<and> \<not> truthy (user s)
            then (let (cachedProfile, st') = getUserProfile P (store s)
                  in if truthy cachedProfile then s\<lparr>user := cachedProfile, store := st'\<rparr>
                     else s\<lparr>store := st'\<rparr>)
            else s)
      else if key e = Some ''user_profile''
      then (case newValue e of
              None \<Rightarrow> s\<lparr>user := JNull\<rparr>
            | Some v \<Rightarrow>
                if v \<noteq> []
                then (case P v of Inl err \<Rightarrow> s | Inr updatedProfile \<Rightarrow> s\<lparr>user := updatedProfile\<rparr>)
                else s)
      else s)"

definition checkBusinessRegistrationAndRedirect ::
  "(string \<Rightarrow> json result) \<Rightarrow> fetch_outcome \<Rightarrow> effect list" where
  "checkBusinessRegistrationAndRedirect P fo =
     (case hasRegisteredBusiness P fo of
        Inr hasBusiness \<Rightarrow>
          if truthy hasBusiness then [RouterPush ''/dashboard''] else [RouterPush ''/onboarding'']
      | Inl error \<Rightarrow> [RouterPush ''/dashboard''])"

text \<open>
  \<open>login\<close> of the provider. \<open>fo_login\<close> is the outcome of the request to \<open>/auth/login\<close>,
  \<open>fo_status\<close> that of the request to \<open>/businesses/status\<close>. Every value thrown here is
  an \<open>Error\<close>, so the notification shows its message.
\<close>

definition login ::
  "(string \<Rightarrow> json result) \<Rightarrow> (json \<Rightarrow> string) \<Rightarrow> fetch_outcome \<Rightarrow> fetch_outcome \<Rightarrow> session
     \<Rightarrow> unit result \<times> session \<times> effect list" where
  "login P S fo_login fo_status s =
     (case AuthAPI_login P S fo_login (store s) of
        (Inl error, st') \<Rightarrow>
          (Inl error, s\<lparr>store := st', isLoading := False\<rparr>,
           [ToastError ''Login failed'' (Some (err_message error))])
      | (Inr response, st') \<Rightarrow>
          (case get response ''user'' of
             Inl error \<Rightarrow>
               (Inl error, s\<lparr>store := st', isLoading := False\<rparr>,
                [ToastError ''Login failed'' (Some (err_message error))])
           | Inr u \<Rightarrow>
               (case get u ''email'' of
                  Inl error \<Rightarrow>
                    (Inl error, s\<lparr>store := st', user := u, isLoading := False\<rparr>,
                     [ToastError ''Login failed'' (Some (err_message error))])
                | Inr email \<Rightarrow>
                    (Inr (), s\<lparr>store := st', user := u, isLoading := False\<rparr>,
                     ToastSuccess ''Welcome back!'' (Some (''Logged in as '' @ js_string email))
                       # checkBusinessRegistrationAndRedirect P fo_status))))"

definition logout :: "fetch_outcome \<Rightarrow> session \<Rightarrow> session \<times> effect list" where
  "logout fo s =
     (case AuthAPI_logout fo (store s) of
        (Inr u, st') \<Rightarrow>
          (s\<lparr>store := st', user := JNull, isLoading := False\<rparr>,
           [ToastSuccess ''Logged out successfully'' None, RouterPush ''/auth''])
      | (Inl error, st') \<Rightarrow>
          (s\<lparr>store := st', isLoading := False\<rparr>,
           [ToastError ''Logout failed'' (Some ''Please try again.'')]))"

definition refreshUser ::
  "(string \<Rightarrow> json result) \<Rightarrow> (json \<Rightarrow> string) \<Rightarrow> fetch_outcome \<Rightarrow> fetch_outcome \<Rightarrow> session
     \<Rightarrow> session \<times> effect list" where
  "refreshUser P S fo_me fo_logout s =
     (case AuthAPI_getCurrentUser P S fo_me (store s) of
        (Inr currentUser, st') \<Rightarrow> (s\<lparr>store := st', user := currentUser\<rparr>, [])
      | (Inl error, st') \<Rightarrow> logout fo_logout (s\<lparr>store := st'\<rparr>))"

text \<open>
  \<open>onSubmit\<close> of the login page: the text it shows above the form is empty after a
  successful login and the message of the error otherwise.
\<close>

definition onSubmit ::
  "(string \<Rightarrow> json result) \<Rightarrow> (json \<Rightarrow> string) \<Rightarrow> fetch_outcome \<Rightarrow> fetch_outcome \<Rightarrow> session
     \<Rightarrow> string \<times> session \<times> effect list" where
  "onSubmit P S fo_login fo_status s =
     (case login P S fo_login fo_status s of
        (Inl err, s', fx) \<Rightarrow> (err_message err, s', fx)
      | (Inr u, s', fx) \<Rightarrow> ([], s', fx))"

section \<open>The documents page (\<open>dashboard/integrations/page.tsx\<close>)\<close>

text \<open>
  An \<open>UploadedFile\<close> of the page's \<open>files\<close> state; \<open>url\<close>, \<open>category\<close> and the time
  \<open>uploadedAt\<close> are left out (the code modelled here writes only the last, and reads
  none). The page state holds \<open>files\<close>, \<open>isUploading\<close> and \<open>currentBusiness\<close>.
\<close>

record uploaded_file =
  uf_id :: string
  uf_name :: string
  uf_size :: nat
  uf_type :: string
  uf_status :: upload_status
  uf_progress :: rat
  uf_taskId :: "json option"
  uf_documentId :: "json option"
  uf_errorMessage :: "json option"

record page =
  files :: "uploaded_file list"
  isUploading :: bool
  currentBusiness :: json

text \<open>\<open>s.split(sep)\<close> for a one-character separator, and \<open>toLowerCase\<close> on ASCII text.\<close>

fun split :: "string \<Rightarrow> char \<Rightarrow> string list" where
  "split [] sep = [[]]"
| "split (c # cs) sep =
     (if c = sep then [] # split cs sep
      else (case split cs sep of [] \<Rightarrow> [[c]] | s # ss \<Rightarrow> (c # s) # ss))"

definition toLowerCase :: "string \<Rightarrow> string" where
  "toLowerCase s =
     map (\<lambda>c. case map_of (zip ''ABCDEFGHIJKLMNOPQRSTUVWXYZ'' ''abcdefghijklmnopqrstuvwxyz'') c of
                 None \<Rightarrow> c | Some l \<Rightarrow> l) s"

text \<open>
  \<open>validateFile\<close>. \<open>formatFileSize\<close> renders a size with floating-point arithmetic; it only
  feeds the text of the notification and is a parameter here.
\<close>

definition validateFile :: "(nat \<Rightarrow> string) \<Rightarrow> File \<Rightarrow> bool \<times> effect list" where
  "validateFile formatFileSize f =
     (if file_size f > maxFileSize
      then (False,
            [ToastError (''File too large. Maximum size is '' @ formatFileSize maxFileSize) None])
      else (let fileExtension = ''.'' @ toLowerCase (last (split (file_name f) CHR ''.''))
            in if fileExtension \<notin> set acceptedFileTypes
               then (False,
                     [ToastError (''Invalid file type. Supported types: '' @ join acceptedFileTypes '', '')
                        None])
               else (True, [])))"

text \<open>
  \<open>pollTaskStatus\<close>. Each call sends the requests of one \<open>getTaskStatus\<close>; their outcomes
  are the head of \<open>polls\<close>. A timer that has been set runs the next call on the rest of
  \<open>polls\<close>; with no outcomes left the run is still waiting. The result is the \<open>files\<close>
  state and the effects in their order.
\<close>

fun pollTaskStatus ::
  "(string \<Rightarrow> json result) \<Rightarrow> json \<Rightarrow> string \<Rightarrow> fetch_outcome list list \<Rightarrow> uploaded_file list
     \<Rightarrow> uploaded_file list \<times> effect list" where
  "pollTaskStatus P business fileId [] fs = (fs, [])"
| "pollTaskStatus P business fileId (fos # polls) fs =
     (case getTaskStatus P fos 0 of
        (fx, None) \<Rightarrow> (fs, fx)
      | (fx, Some (Inl err)) \<Rightarrow>
          (let (fs', fx') = pollTaskStatus P business fileId polls fs
           in (fs', fx @ SetTimeoutPoll (of_nat polling_interval * polling_backoffMultiplier) # fx'))
      | (fx, Some (Inr statusResponse)) \<Rightarrow>
          (case get statusResponse ''status'' of
             Inl err \<Rightarrow>
               (let (fs', fx') = pollTaskStatus P business fileId polls fs
                in (fs', fx @ SetTimeoutPoll (of_nat polling_interval * polling_backoffMultiplier) # fx'))
           | Inr st \<Rightarrow>
               if st = JStr ''completed''
               then (map (\<lambda>f. if uf_id f = fileId then f\<lparr>uf_status := St_success\<rparr> else f) fs,
                     fx @ [SetFiles fileId St_success,
                           ToastSuccess ''Document processing completed'' None]
                        @ (if truthy business
                           then (case get business ''id'' of
                                   Inl err \<Rightarrow> [] | Inr bid \<Rightarrow> [LoadDocuments bid])
                           else []))
               else if st = JStr ''failed''
               then (map (\<lambda>f. if uf_id f = fileId
                               then f\<lparr>uf_status := St_error,
                                      uf_errorMessage :=
                                        Some (case get statusResponse ''message'' of
                                                Inl err \<Rightarrow> JStr ''Processing failed''
                                              | Inr m \<Rightarrow> if truthy m then m
                                                         else JStr ''Processing failed'')\<rparr>
                               else f) fs,
                     fx @ [SetFiles fileId St_error, ToastError ''Document processing failed'' None])
               else (let (fs', fx') = pollTaskStatus P business fileId polls fs
                     in (fs', fx @ SetTimeoutPoll (of_nat polling_interval) # fx'))))"

text \<open>
  \<open>uploadFile\<close>. \<open>outcome\<close> is what \<open>documentAPI.uploadDocument\<close> comes back with: the parsed
  answer, or the error it rejects with. The progress callbacks in between are left out.
  An answer whose \<open>filename\<close> cannot be read (\<open>null\<close>) throws in the \<open>try\<close> block and ends
  in its \<open>catch\<close>.
\<close>

definition uploadFile :: "json result \<Rightarrow> File \<Rightarrow> string \<Rightarrow> page \<Rightarrow> page \<times> effect list" where
  "uploadFile outcome f fileId pg =
     (if \<not> truthy (currentBusiness pg) then (pg, [ToastError ''No business selected'' None])
      else (let bid = (case get (currentBusiness pg) ''id'' of Inl e \<Rightarrow> JUndef | Inr v \<Rightarrow> v);
                failed = (\<lambda>err.
                  (pg\<lparr>files := map (\<lambda>u. if uf_id u = fileId
                                         then u\<lparr>uf_status := St_error,
                                                uf_errorMessage := Some (JStr (err_message err))\<rparr>
                                         else u) (files pg)\<rparr>,
                   [UploadRequest f bid,
                    SetFiles fileId St_error,
                    ToastError (''Upload failed: '' @ err_message err) None]))
            in case outcome of
                 Inl err \<Rightarrow> failed err
               | Inr response \<Rightarrow>
                   (case get response ''filename'' of
                      Inl err \<Rightarrow> failed err
                    | Inr filename \<Rightarrow>
                        (let task_id = (case get response ''task_id'' of Inl e \<Rightarrow> JUndef | Inr v \<Rightarrow> v);
                             document_id = (case get response ''document_id'' of
                                              Inl e \<Rightarrow> JUndef | Inr v \<Rightarrow> v)
                         in (pg\<lparr>files := map (\<lambda>u. if uf_id u = fileId
                                                   then u\<lparr>uf_status := St_processing, uf_progress := 100,
                                                          uf_taskId := Some task_id,
                                                          uf_documentId := Some document_id\<rparr>
                                                   else u) (files pg)\<rparr>,
                             [UploadRequest f bid,
                              SetFiles fileId St_processing,
                              ToastSuccess (''Upload successful: '' @ js_string filename) None,
                              StartPoll task_id fileId,
                              SetTimeoutLoadDocuments 1000 bid])))))"

text \<open>
  \<open>handleFiles\<close>. The \<open>forEach\<close> loop keeps the files that pass \<open>validateFile\<close>, each with
  a fresh id (\<open>newId k\<close> for the \<open>k\<close>-th file kept stands for the random id); the files
  kept are then uploaded one after the other. \<open>outcome\<close> gives, for a file id, what its
  upload comes back with.
\<close>

fun forEach_validate ::
  "(nat \<Rightarrow> string) \<Rightarrow> (nat \<Rightarrow> string) \<Rightarrow> File list \<Rightarrow> nat \<Rightarrow> (File \<times> string) list \<times> effect list" where
  "forEach_validate formatFileSize newId [] k = ([], [])"
| "forEach_validate formatFileSize newId (f # fl) k =
     (case validateFile formatFileSize f of
        (True, fx) \<Rightarrow>
          (let (validFiles, fx') = forEach_validate formatFileSize newId fl (k + 1)
           in ((f, newId k) # validFiles, fx @ fx'))
      | (False, fx) \<Rightarrow>
          (let (validFiles, fx') = forEach_validate formatFileSize newId fl k
           in (validFiles, fx @ fx')))"

fun upload_all :: "(string \<Rightarrow> json result) \<Rightarrow> (File \<times> string) list \<Rightarrow> page \<Rightarrow> page \<times> effect list" where
  "upload_all outcome [] pg = (pg, [])"
| "upload_all outcome ((f, fileId) # validFiles) pg =
     (let (pg', fx) = uploadFile (outcome fileId) f fileId pg;
          (pg'', fx') = upload_all outcome validFiles pg'
      in (pg'', fx @ fx'))"

definition newFile :: "File \<times> string \<Rightarrow> uploaded_file" where
  "newFile v =
     \<lparr>uf_id = snd v, uf_name = file_name (fst v), uf_size = file_size (fst v),
      uf_type = file_type (fst v), uf_status = St_uploading, uf_progress = 0,
      uf_taskId = None, uf_documentId = None, uf_errorMessage = None\<rparr>"

definition handleFiles ::
  "(nat \<Rightarrow> string) \<Rightarrow> (nat \<Rightarrow> string) \<Rightarrow> (string \<Rightarrow> json result) \<Rightarrow> File list \<Rightarrow> page
     \<Rightarrow> page \<times> effect list" where
  "handleFiles formatFileSize newId outcome fileList pg =
     (if isUploading pg
      then (pg, [ToastError ''Please wait for current uploads to complete'' None])
      else (let (validFiles, fx) = forEach_validate formatFileSize newId fileList 0;
                newFiles = map newFile validFiles
            in if length newFiles > 0
               then (let (pg', fx') =
                           upload_all outcome validFiles
                             (pg\<lparr>files := files pg @ newFiles, isUploading := True\<rparr>)
                     in (pg'\<lparr>isUploading := False\<rparr>, fx @ fx'))
               else (pg, fx)))"

section \<open>Example data\<close>

text \<open>
  \<open>JSON.parse\<close> and \<open>JSON.stringify\<close> as far as the examples below use them: the texts and
  the profile listed here. Nothing else is given to them there, apart from an HTML page,
  which is not JSON.
\<close>

definition example_parse :: "string \<Rightarrow> json result" where
  \<open>example_parse s =
     (if s = ''{"detail":"LOGIN_BAD_CREDENTIALS"}''
      then Inr (JObj [(''detail'', JStr ''LOGIN_BAD_CREDENTIALS'')])
      else if s = ''{"detail":"Task not found"}''
      then Inr (JObj [(''detail'', JStr ''Task not found'')])
      else if s = ''{"access_token":"tok","token_type":"bearer","user":{"id":"1","email":"a@b.c"}}''
      then Inr (JObj [(''access_token'', JStr ''tok''), (''token_type'', JStr ''bearer''),
                      (''user'', JObj [(''id'', JStr ''1''), (''email'', JStr ''a@b.c'')])])
      else if s = ''{"id":"1","email":"a@b.c"}''
      then Inr (JObj [(''id'', JStr ''1''), (''email'', JStr ''a@b.c'')])
      else if s = ''{"has_business":false}'' then Inr (JObj [(''has_business'', JBool False)])
      else if s = ''{"has_business":true}'' then Inr (JObj [(''has_business'', JBool True)])
      else if s = ''{}'' then Inr (JObj [])
      else if s = ''{"has_business":"no"}'' then Inr (JObj [(''has_business'', JStr ''no'')])
      else if s = ''{"detail":"could not fetch task"}''
      then Inr (JObj [(''detail'', JStr ''could not fetch task'')])
      else if s = ''{"status":"processing"}'' then Inr (JObj [(''status'', JStr ''processing'')])
      else if s = ''{"status":"completed"}'' then Inr (JObj [(''status'', JStr ''completed'')])
      else Inl (JSError ''SyntaxError'' ''Unexpected token''))\<close>

definition example_stringify :: "json \<Rightarrow> string" where
  \<open>example_stringify v =
     (if v = JObj [(''id'', JStr ''1''), (''email'', JStr ''a@b.c'')]
      then ''{"id":"1","email":"a@b.c"}''
      else ''null'')\<close>

definition example_profile :: json where
  "example_profile = JObj [(''id'', JStr ''1''), (''email'', JStr ''a@b.c'')]"

definition json_response :: "nat \<Rightarrow> string \<Rightarrow> string \<Rightarrow> response" where
  "json_response code reason text =
     \<lparr>status = code, statusText = reason, contentType = Some ''application/json'', bodyText = text\<rparr>"

definition html_response :: "nat \<Rightarrow> string \<Rightarrow> response" where
  "html_response code reason =
     \<lparr>status = code, statusText = reason, contentType = Some ''text/html'',
      bodyText = ''<html><body>Bad Gateway</body></html>''\<rparr>"

definition signed_out :: session where
  "signed_out = \<lparr>user = JNull, isLoading = False, store = Map.empty\<rparr>"

definition signed_in :: session where
  \<open>signed_in =
     \<lparr>user = example_profile, isLoading = False,
      store = [''auth_token'' \<mapsto> ''tok'', ''user_profile'' \<mapsto> ''{"id":"1","email":"a@b.c"}'']\<rparr>\<close>

definition empty_token_session :: session where
  "empty_token_session =
     \<lparr>user = example_profile, isLoading = False, store = [''auth_token'' \<mapsto> []]\<rparr>"

definition rejected_login :: fetch_outcome where
  \<open>rejected_login =
     Resolves (json_response 401 ''Unauthorized'' ''{"detail":"LOGIN_BAD_CREDENTIALS"}'')\<close>

definition accepted_login :: fetch_outcome where
  \<open>accepted_login =
     Resolves (json_response 200 ''OK''
       ''{"access_token":"tok","token_type":"bearer","user":{"id":"1","email":"a@b.c"}}'')\<close>

definition no_business :: fetch_outcome where
  \<open>no_business = Resolves (json_response 200 ''OK'' ''{"has_business":false}'')\<close>

definition one_business :: fetch_outcome where
  \<open>one_business = Resolves (json_response 200 ''OK'' ''{"has_business":true}'')\<close>

definition reports_processing :: "fetch_outcome list" where
  \<open>reports_processing = [Resolves (json_response 200 ''OK'' ''{"status":"processing"}'')]\<close>

definition reports_completed :: "fetch_outcome list" where
  \<open>reports_completed = [Resolves (json_response 200 ''OK'' ''{"status":"completed"}'')]\<close>

definition fetch_fails_once :: "fetch_outcome list" where
  \<open>fetch_fails_once =
     [Rejects (JSError ''TypeError'' ''Failed to fetch''),
      Resolves (json_response 200 ''OK'' ''{"status":"completed"}'')]\<close>

definition failed_to_fetch :: jserror where
  "failed_to_fetch = JSError ''TypeError'' ''Failed to fetch''"

definition example_business :: json where
  "example_business = JObj [(''id'', JStr ''b1'')]"

definition small_pdf :: File where
  "small_pdf = \<lparr>file_name = ''notes.PDF'', file_size = 2048, file_type = ''application/pdf''\<rparr>"

definition big_pdf :: File where
  "big_pdf = \<lparr>file_name = ''scan.pdf'', file_size = 10485761, file_type = ''application/pdf''\<rparr>"

definition idle_page :: page where
  "idle_page = \<lparr>files = [], isUploading = False, currentBusiness = example_business\<rparr>"

section \<open>Properties\<close>

subsection \<open>The session and its flag\<close>

lemma isAuthenticated_iff:
  "isAuthenticated s \<longleftrightarrow>
     truthy (user s) \<and> getToken (store s) \<noteq> None \<and> getToken (store s) \<noteq> Some []"
  by (cases "getToken (store s)") (simp_all add: isAuthenticated_def)

lemma AuthAPI_isAuthenticated_iff:
  "fst (AuthAPI_isAuthenticated P st) \<longleftrightarrow>
     (\<exists>t. st ''auth_token'' = Some t \<and> t \<noteq> []) \<and>
     (\<exists>p v. st ''user_profile'' = Some p \<and> p \<noteq> [] \<and> P p = Inr v \<and> truthy v)"
  apply (cases "st ''auth_token''"; cases "st ''user_profile''")
     apply (auto simp: AuthAPI_isAuthenticated_def getUserProfile_def getToken_def getItem_def
      Let_def split: sum.splits prod.splits if_splits)
  subgoal for a b c by (cases c) auto
  done

text \<open>
  C1, as the code has it. In every session state \<open>isAuthenticated\<close> is true exactly when
  the \<open>user\<close> state is truthy (for a profile object or \<open>null\<close>: when it is not \<open>null\<close>) and
  the token stored under \<open>auth_token\<close> is present and is not the empty string; this is so
  in particular in the states that \<open>login\<close>, \<open>logout\<close>, \<open>refreshUser\<close> and the handler of
  storage events leave. For a profile object or \<open>null\<close> as \<open>user\<close> and a stored token that
  is not empty, the flag is true exactly when both are non-null. \<open>AuthAPI.isAuthenticated\<close>
  is true exactly when the stored token is not empty and the stored profile is a
  non-empty text that parses to a truthy value.
\<close>

theorem isAuthenticated_iff_user_and_nonempty_token:
  "(\<forall>s' \<in> {s, fst (snd (login P S fo_login fo_status s)), fst (logout fo s),
            fst (refreshUser P S fo_me fo s), handleStorageChange P e s}.
      isAuthenticated s' \<longleftrightarrow>
        truthy (user s') \<and> getToken (store s') \<noteq> None \<and> getToken (store s') \<noteq> Some []) \<and>
   ((user s = JNull \<or> (\<exists>kvs. user s = JObj kvs)) \<and> getToken (store s) \<noteq> Some [] \<longrightarrow>
      (isAuthenticated s \<longleftrightarrow> user s \<noteq> JNull \<and> getToken (store s) \<noteq> None)) \<and>
   (fst (AuthAPI_isAuthenticated P st) \<longleftrightarrow>
      (\<exists>t. st ''auth_token'' = Some t \<and> t \<noteq> []) \<and>
      (\<exists>p v. st ''user_profile'' = Some p \<and> p \<noteq> [] \<and> P p = Inr v \<and> truthy v))"
proof (intro conjI)
  show "\<forall>s' \<in> {s, fst (snd (login P S fo_login fo_status s)), fst (logout fo s),
            fst (refreshUser P S fo_me fo s), handleStorageChange P e s}.
      isAuthenticated s' \<longleftrightarrow>
        truthy (user s') \<and> getToken (store s') \<noteq> None \<and> getToken (store s') \<noteq> Some []"
    using isAuthenticated_iff by blast
  show "(user s = JNull \<or> (\<exists>kvs. user s = JObj kvs)) \<and> getToken (store s) \<noteq> Some [] \<longrightarrow>
      (isAuthenticated s \<longleftrightarrow> user s \<noteq> JNull \<and> getToken (store s) \<noteq> None)"
    using isAuthenticated_iff[of s] by auto
  show "fst (AuthAPI_isAuthenticated P st) \<longleftrightarrow>
      (\<exists>t. st ''auth_token'' = Some t \<and> t \<noteq> []) \<and>
      (\<exists>p v. st ''user_profile'' = Some p \<and> p \<noteq> [] \<and> P p = Inr v \<and> truthy v)"
    by (rule AuthAPI_isAuthenticated_iff)
qed

theorem isAuthenticated_iff_user_and_nonempty_token_witness:
  "isAuthenticated signed_in \<and>
   \<not> isAuthenticated (fst (logout (Rejects failed_to_fetch) signed_in)) \<and>
   \<not> isAuthenticated (handleStorageChange example_parse
        \<lparr>key = Some ''auth_token'', newValue = None\<rparr> signed_in) \<and>
   fst (AuthAPI_isAuthenticated example_parse (store signed_in))"
  using isAuthenticated_iff_user_and_nonempty_token
    [of signed_in example_parse example_stringify rejected_login no_business
        "Rejects failed_to_fetch" "Rejects failed_to_fetch"
        "\<lparr>key = Some ''auth_token'', newValue = None\<rparr>" "store signed_in"]
  by (simp add: signed_in_def example_profile_def getToken_def getItem_def logout_def
      AuthAPI_logout_def removeItem_def handleStorageChange_def example_parse_def)

text \<open>
  The equivalence of C1 as it is stated, with "present" meaning non-null, fails for a
  session whose stored token is the empty string: the token and the profile are both
  non-null and the flag is false.
\<close>

theorem isAuthenticated_nonnull_counterexample:
  "user empty_token_session \<noteq> JNull \<and>
   getToken (store empty_token_session) \<noteq> None \<and>
   \<not> isAuthenticated empty_token_session"
  by (simp add: empty_token_session_def example_profile_def isAuthenticated_def getToken_def
      getItem_def)

subsection \<open>Logging out\<close>

text \<open>
  C2. After \<open>AuthAPI.logout()\<close> local storage holds neither \<open>auth_token\<close> nor
  \<open>user_profile\<close>, and the call itself resolves, for every storage and every outcome of
  the invalidation request: answered (with any status), rejected, or not sent because no
  token was stored. The same holds for the storage that \<open>logout\<close> of the session
  controller leaves, which also clears \<open>user\<close>.
\<close>

theorem logout_clears_session:
  "snd (AuthAPI_logout fo st) ''auth_token'' = None \<and>
   snd (AuthAPI_logout fo st) ''user_profile'' = None \<and>
   fst (AuthAPI_logout fo st) = Inr () \<and>
   store (fst (logout fo s)) ''auth_token'' = None \<and>
   store (fst (logout fo s)) ''user_profile'' = None \<and>
   user (fst (logout fo s)) = JNull"
  by (simp add: logout_def AuthAPI_logout_def removeItem_def Let_def split: fetch_outcome.split)

theorem logout_clears_session_witness:
  "store signed_in ''auth_token'' = Some ''tok'' \<and>
   snd (AuthAPI_logout (Rejects failed_to_fetch) (store signed_in)) ''auth_token'' = None \<and>
   snd (AuthAPI_logout (Rejects failed_to_fetch) (store signed_in)) ''user_profile'' = None \<and>
   snd (AuthAPI_logout (Resolves (html_response 502 ''Bad Gateway'')) (store signed_in))
     ''auth_token'' = None \<and>
   snd (AuthAPI_logout (Resolves (html_response 502 ''Bad Gateway'')) (store signed_out))
     ''user_profile'' = None"
  using logout_clears_session [of "Rejects failed_to_fetch" "store signed_in" signed_in]
    logout_clears_session [of "Resolves (html_response 502 ''Bad Gateway'')" "store signed_in" signed_in]
    logout_clears_session [of "Resolves (html_response 502 ''Bad Gateway'')" "store signed_out" signed_in]
  by (simp add: signed_in_def)

subsection \<open>Logging in\<close>

lemma login_of_rejection:
  assumes "\<not> ok r"
  shows "login P S (Resolves r) fo_status s =
           (Inl (Error (login_errorMessage P (bodyText r))), s\<lparr>isLoading := False\<rparr>,
            [ToastError ''Login failed'' (Some (login_errorMessage P (bodyText r)))])"
  using assms by (simp add: login_def AuthAPI_login_def Error_def)

text \<open>
  C3, as the code has it. When the backend answers a login with a non-2xx status, the
  storage and the \<open>user\<close> state are left as they were (an unauthenticated session stays
  unauthenticated), and the login page and the notification show the message that
  \<open>AuthAPI.login\<close> builds: the text of the answer itself when it is not JSON and not
  empty; \<open>Invalid email or password\<close> for the detail \<open>LOGIN_BAD_CREDENTIALS\<close>;
  \<open>Please verify your email before logging in\<close> for \<open>LOGIN_USER_NOT_VERIFIED\<close>; and the
  detail, word for word, when it is any other non-empty string.
\<close>

theorem login_rejected_keeps_session:
  assumes "\<not> ok r"
  shows "store (fst (snd (onSubmit P S (Resolves r) fo_status s))) = store s \<and>
         user (fst (snd (onSubmit P S (Resolves r) fo_status s))) = user s \<and>
         (\<not> isAuthenticated s \<longrightarrow>
            \<not> isAuthenticated (fst (snd (onSubmit P S (Resolves r) fo_status s)))) \<and>
         fst (onSubmit P S (Resolves r) fo_status s) = login_errorMessage P (bodyText r) \<and>
         snd (snd (onSubmit P S (Resolves r) fo_status s)) =
           [ToastError ''Login failed'' (Some (login_errorMessage P (bodyText r)))] \<and>
         (\<forall>e. P (bodyText r) = Inl e \<and> bodyText r \<noteq> [] \<longrightarrow>
              login_errorMessage P (bodyText r) = bodyText r) \<and>
         (\<forall>kvs. P (bodyText r) = Inr (JObj kvs) \<and>
                map_of kvs ''detail'' = Some (JStr ''LOGIN_BAD_CREDENTIALS'') \<longrightarrow>
              login_errorMessage P (bodyText r) = ''Invalid email or password'') \<and>
         (\<forall>kvs. P (bodyText r) = Inr (JObj kvs) \<and>
                map_of kvs ''detail'' = Some (JStr ''LOGIN_USER_NOT_VERIFIED'') \<longrightarrow>
              login_errorMessage P (bodyText r) = ''Please verify your email before logging in'') \<and>
         (\<forall>kvs d. P (bodyText r) = Inr (JObj kvs) \<and> map_of kvs ''detail'' = Some (JStr d) \<and>
                d \<noteq> [] \<and> d \<noteq> ''LOGIN_BAD_CREDENTIALS'' \<and> d \<noteq> ''LOGIN_USER_NOT_VERIFIED'' \<longrightarrow>
              login_errorMessage P (bodyText r) = d)"
  using assms
  by (auto simp: onSubmit_def login_of_rejection login_errorMessage_def isAuthenticated_def
      Error_def)

theorem login_rejected_keeps_session_witness:
  \<open>\<not> ok (json_response 404 ''Not Found'' ''{"detail":"Task not found"}'') \<and>
   \<not> isAuthenticated signed_out \<and>
   \<not> isAuthenticated (fst (snd (onSubmit example_parse example_stringify
        (Resolves (json_response 404 ''Not Found'' ''{"detail":"Task not found"}''))
        no_business signed_out))) \<and>
   fst (onSubmit example_parse example_stringify
        (Resolves (json_response 404 ''Not Found'' ''{"detail":"Task not found"}''))
        no_business signed_out) = ''Task not found''\<close>
proof -
  have h: \<open>\<not> ok (json_response 404 ''Not Found'' ''{"detail":"Task not found"}'')\<close>
    by (simp add: ok_def json_response_def)
  show ?thesis
    using h login_rejected_keeps_session [OF h, of example_parse example_stringify no_business signed_out]
    by (simp add: json_response_def example_parse_def signed_out_def isAuthenticated_def)
qed

text \<open>
  C3 as it is stated fails for the answer \<open>401 {"detail":"LOGIN_BAD_CREDENTIALS"}\<close>: the
  message shown is neither the text of the answer nor its detail.
\<close>

theorem login_rejected_message_counterexample:
  \<open>rejected_login = Resolves (json_response 401 ''Unauthorized'' ''{"detail":"LOGIN_BAD_CREDENTIALS"}'') \<and>
   \<not> ok (json_response 401 ''Unauthorized'' ''{"detail":"LOGIN_BAD_CREDENTIALS"}'') \<and>
   example_parse ''{"detail":"LOGIN_BAD_CREDENTIALS"}'' =
     Inr (JObj [(''detail'', JStr ''LOGIN_BAD_CREDENTIALS'')]) \<and>
   fst (onSubmit example_parse example_stringify rejected_login no_business signed_out) =
     ''Invalid email or password'' \<and>
   snd (snd (onSubmit example_parse example_stringify rejected_login no_business signed_out)) =
     [ToastError ''Login failed'' (Some ''Invalid email or password'')] \<and>
   ''Invalid email or password'' \<noteq> ''{"detail":"LOGIN_BAD_CREDENTIALS"}'' \<and>
   ''Invalid email or password'' \<noteq> ''LOGIN_BAD_CREDENTIALS''\<close>
  by (simp add: rejected_login_def json_response_def ok_def example_parse_def onSubmit_def
      login_def AuthAPI_login_def login_errorMessage_def signed_out_def Error_def)



subsection \<open>Uploading documents\<close>

lemma validateFile_too_large:
  "file_size f > maxFileSize \<Longrightarrow> fst (validateFile formatFileSize f) = False"
  by (simp add: validateFile_def)

lemma validateFile_no_request:
  "validateFile formatFileSize f = (a, fx) \<Longrightarrow> UploadRequest g b \<notin> set fx"
  by (auto simp: validateFile_def Let_def split: if_splits)

lemma forEach_validate_valid:
  "forEach_validate formatFileSize newId fl k = (vs, fx) \<Longrightarrow> (g, i) \<in> set vs
     \<Longrightarrow> g \<in> set fl \<and> fst (validateFile formatFileSize g)"
proof (induction fl arbitrary: k vs fx)
  case Nil
  then show ?case by simp
next
  case (Cons f fl)
  obtain a fx0 where v: "validateFile formatFileSize f = (a, fx0)"
    by (cases "validateFile formatFileSize f")
  show ?case
  proof (cases a)
    case True
    obtain vs' fx' where r: "forEach_validate formatFileSize newId fl (k + 1) = (vs', fx')"
      by (cases "forEach_validate formatFileSize newId fl (k + 1)")
    with Cons.prems v True have "vs = (f, newId k) # vs'" by simp
    with Cons.prems(2) Cons.IH[OF r] v True show ?thesis by auto
  next
    case False
    obtain vs' fx' where r: "forEach_validate formatFileSize newId fl k = (vs', fx')"
      by (cases "forEach_validate formatFileSize newId fl k")
    with Cons.prems v False have "vs = vs'" by simp
    with Cons.prems(2) Cons.IH[OF r] show ?thesis by auto
  qed
qed

lemma forEach_validate_no_request:
  "forEach_validate formatFileSize newId fl k = (vs, fx) \<Longrightarrow> UploadRequest g b \<notin> set fx"
proof (induction fl arbitrary: k vs fx)
  case Nil
  then show ?case by simp
next
  case (Cons f fl)
  obtain a fx0 where v: "validateFile formatFileSize f = (a, fx0)"
    by (cases "validateFile formatFileSize f")
  obtain vs' fx' where
    r: "forEach_validate formatFileSize newId fl (if a then k + 1 else k) = (vs', fx')"
    by (cases "forEach_validate formatFileSize newId fl (if a then k + 1 else k)")
  from Cons.prems v r have "fx = fx0 @ fx'" by (cases a) auto
  with validateFile_no_request[OF v] Cons.IH[OF r] show ?case by simp
qed

lemma uploadFile_request:
  "uploadFile oc f i pg = (pg', fx) \<Longrightarrow> UploadRequest g b \<in> set fx \<Longrightarrow> g = f"
  by (auto simp: uploadFile_def Let_def split: if_splits sum.splits)

lemma upload_all_request:
  "upload_all outcome vs pg = (pg', fx) \<Longrightarrow> UploadRequest g b \<in> set fx \<Longrightarrow> g \<in> fst ` set vs"
proof (induction vs arbitrary: pg pg' fx)
  case Nil
  then show ?case by simp
next
  case (Cons v vs)
  obtain f i where v: "v = (f, i)" by (cases v)
  obtain pg1 fx1 where u: "uploadFile (outcome i) f i pg = (pg1, fx1)"
    by (cases "uploadFile (outcome i) f i pg")
  obtain pg2 fx2 where r: "upload_all outcome vs pg1 = (pg2, fx2)"
    by (cases "upload_all outcome vs pg1")
  from Cons.prems(1) v u r have "fx = fx1 @ fx2" by simp
  with Cons.prems(2) uploadFile_request[OF u] Cons.IH[OF r] v show ?case by auto
qed

lemma handleFiles_request:
  assumes "UploadRequest g b \<in> set (snd (handleFiles formatFileSize newId outcome fileList pg))"
  shows "g \<in> fst ` set (fst (forEach_validate formatFileSize newId fileList 0))"
proof -
  obtain vs fx where r: "forEach_validate formatFileSize newId fileList 0 = (vs, fx)"
    by (cases "forEach_validate formatFileSize newId fileList 0")
  obtain pg' fx' where u:
    "upload_all outcome vs (pg\<lparr>files := files pg @ map newFile vs, isUploading := True\<rparr>) = (pg', fx')"
    by (cases "upload_all outcome vs (pg\<lparr>files := files pg @ map newFile vs, isUploading := True\<rparr>)")
  from assms r u forEach_validate_no_request[OF r, of g b] have "UploadRequest g b \<in> set fx'"
    by (auto simp: handleFiles_def Let_def split: if_splits)
  from upload_all_request[OF u this] r show ?thesis by simp
qed

text \<open>
  C5. A file larger than \<open>config.upload.maxFileSize\<close> (10 MiB) fails \<open>validateFile\<close>; the
  files that \<open>handleFiles\<close> keeps for upload are files of the list not larger than that;
  and every upload request that \<open>handleFiles\<close> sends is for such a file, so none is sent
  for a larger one.
\<close>

theorem oversized_file_never_uploaded:
  "maxFileSize = 10485760 \<and>
   (file_size f > maxFileSize \<longrightarrow> fst (validateFile formatFileSize f) = False) \<and>
   (\<forall>g i. (g, i) \<in> set (fst (forEach_validate formatFileSize newId fileList 0)) \<longrightarrow>
        g \<in> set fileList \<and> file_size g \<le> maxFileSize) \<and>
   (\<forall>g b. UploadRequest g b \<in> set (snd (handleFiles formatFileSize newId outcome fileList pg)) \<longrightarrow>
        g \<in> set fileList \<and> file_size g \<le> maxFileSize)"
proof -
  have valid: "g \<in> set fileList \<and> file_size g \<le> maxFileSize"
    if "(g, i) \<in> set (fst (forEach_validate formatFileSize newId fileList 0))" for g i
  proof -
    obtain vs fx where r: "forEach_validate formatFileSize newId fileList 0 = (vs, fx)"
      by (cases "forEach_validate formatFileSize newId fileList 0")
    with that have "(g, i) \<in> set vs" by simp
    from forEach_validate_valid[OF r this] validateFile_too_large[of g formatFileSize]
    show ?thesis by (cases "file_size g \<le> maxFileSize") auto
  qed
  have req: "g \<in> set fileList \<and> file_size g \<le> maxFileSize"
    if "UploadRequest g b \<in> set (snd (handleFiles formatFileSize newId outcome fileList pg))" for g b
    using handleFiles_request[OF that] valid by auto
  have "maxFileSize = 10485760" by (simp add: maxFileSize_def)
  then show ?thesis using validateFile_too_large[of f formatFileSize] valid req by blast
qed

theorem oversized_file_never_uploaded_witness:
  "file_size big_pdf > maxFileSize \<and>
   fst (validateFile (\<lambda>n. ''10 MB'') big_pdf) = False \<and>
   snd (handleFiles (\<lambda>n. ''10 MB'') (\<lambda>k. ''id'' @ str_of_nat k) (\<lambda>i. Inl failed_to_fetch)
          [big_pdf, small_pdf] idle_page) =
     [ToastError ''File too large. Maximum size is 10 MB'' None,
      UploadRequest small_pdf (JStr ''b1''),
      SetFiles ''id0'' St_error,
      ToastError ''Upload failed: Failed to fetch'' None] \<and>
   UploadRequest big_pdf (JStr ''b1'') \<notin>
     set (snd (handleFiles (\<lambda>n. ''10 MB'') (\<lambda>k. ''id'' @ str_of_nat k) (\<lambda>i. Inl failed_to_fetch)
                 [big_pdf, small_pdf] idle_page))"
proof -
  have big: "file_size big_pdf > maxFileSize" by (simp add: big_pdf_def maxFileSize_def)
  have ext: "''.'' @ toLowerCase (last (split ''notes.PDF'' CHR ''.'')) = ''.pdf''"
    by (simp add: toLowerCase_def)
  have run: "snd (handleFiles (\<lambda>n. ''10 MB'') (\<lambda>k. ''id'' @ str_of_nat k) (\<lambda>i. Inl failed_to_fetch)
          [big_pdf, small_pdf] idle_page) =
     [ToastError ''File too large. Maximum size is 10 MB'' None,
      UploadRequest small_pdf (JStr ''b1''),
      SetFiles ''id0'' St_error,
      ToastError ''Upload failed: Failed to fetch'' None]"
    using ext
    by (simp add: handleFiles_def validateFile_def big_pdf_def small_pdf_def maxFileSize_def
        acceptedFileTypes_def idle_page_def example_business_def uploadFile_def newFile_def
        failed_to_fetch_def str_of_nat.simps Let_def)
  show ?thesis
    using big run
      oversized_file_never_uploaded [of big_pdf "\<lambda>n. ''10 MB''" "\<lambda>k. ''id'' @ str_of_nat k"
        "[big_pdf, small_pdf]" "\<lambda>i. Inl failed_to_fetch" idle_page]
    by auto
qed

subsection \<open>Polling the status of a task\<close>

lemma poll_nonterminal:
  assumes "getTaskStatus P fos 0 = (fx, Some (Inr v))" "get v ''status'' = Inr st"
    "st \<noteq> JStr ''completed''" "st \<noteq> JStr ''failed''"
  shows "pollTaskStatus P business fileId (fos # polls) fs =
           (fst (pollTaskStatus P business fileId polls fs),
            fx @ SetTimeoutPoll (of_nat polling_interval)
              # snd (pollTaskStatus P business fileId polls fs))"
  using assms by (simp add: split_beta)

lemma poll_prefix:
  assumes "\<forall>fos \<in> set pre. \<exists>fx v st. getTaskStatus P fos 0 = (fx, Some (Inr v)) \<and>
             get v ''status'' = Inr st \<and> st \<noteq> JStr ''completed'' \<and> st \<noteq> JStr ''failed''"
  shows "pollTaskStatus P business fileId (pre @ polls) fs =
           (fst (pollTaskStatus P business fileId polls fs),
            concat (map (\<lambda>fos. fst (getTaskStatus P fos 0)
                                 @ [SetTimeoutPoll (of_nat polling_interval)]) pre)
              @ snd (pollTaskStatus P business fileId polls fs))"
  using assms
proof (induction pre)
  case Nil
  then show ?case by simp
next
  case (Cons fos pre)
  from Cons.prems obtain fx v st where h: "getTaskStatus P fos 0 = (fx, Some (Inr v))"
    "get v ''status'' = Inr st" "st \<noteq> JStr ''completed''" "st \<noteq> JStr ''failed''" by auto
  from Cons have IH: "pollTaskStatus P business fileId (pre @ polls) fs =
           (fst (pollTaskStatus P business fileId polls fs),
            concat (map (\<lambda>fos. fst (getTaskStatus P fos 0)
                                 @ [SetTimeoutPoll (of_nat polling_interval)]) pre)
              @ snd (pollTaskStatus P business fileId polls fs))" by simp
  show ?case
    using poll_nonterminal[OF h, of business fileId "pre @ polls" fs] IH h(1) by simp
qed

lemma poll_completed:
  assumes "getTaskStatus P fos 0 = (fx, Some (Inr v))" "get v ''status'' = Inr (JStr ''completed'')"
    "truthy business" "get business ''id'' = Inr bid"
  shows "pollTaskStatus P business fileId (fos # polls) fs =
           (map (\<lambda>f. if uf_id f = fileId then f\<lparr>uf_status := St_success\<rparr> else f) fs,
            fx @ [SetFiles fileId St_success, ToastSuccess ''Document processing completed'' None,
                  LoadDocuments bid])"
  using assms by simp

lemma poll_failed:
  assumes "getTaskStatus P fos 0 = (fx, Some (Inr v))" "get v ''status'' = Inr (JStr ''failed'')"
  shows "snd (pollTaskStatus P business fileId (fos # polls) fs) =
            fx @ [SetFiles fileId St_error, ToastError ''Document processing failed'' None]"
  using assms by simp

text \<open>
  C6. Take a run of polls in which the first ones (\<open>pre\<close>) each get an answer that
  reports a status other than \<open>completed\<close> and \<open>failed\<close>, and the next one gets an answer
  that reports \<open>st\<close>. Each of the first polls sets the timer for the next one, after
  \<open>config.polling.interval\<close> = 2000 ms (before it come the pauses of the repeats inside
  \<open>getTaskStatus\<close>, if there were any). If \<open>st\<close> is \<open>completed\<close>, the poll that reads it
  marks the file \<open>success\<close>, calls \<open>loadDocuments\<close> once for the current business and sets
  no timer, whatever the backend would answer later (\<open>polls\<close>); if it is \<open>failed\<close>, the
  poll marks the file \<open>error\<close> and sets no timer; otherwise it sets the timer again. So
  after three times \<open>processing\<close> and then \<open>completed\<close> the effects are three timers, one
  terminal update of the file, its notification and one refresh of the document list.
\<close>

theorem polling_stops_at_terminal_status:
  assumes "\<forall>fos \<in> set pre. \<exists>fx v st. getTaskStatus P fos 0 = (fx, Some (Inr v)) \<and>
             get v ''status'' = Inr st \<and> st \<noteq> JStr ''completed'' \<and> st \<noteq> JStr ''failed''"
    and "getTaskStatus P fos 0 = (fx, Some (Inr v))" and "get v ''status'' = Inr st"
    and "truthy business" and "get business ''id'' = Inr bid"
  shows "polling_interval = 2000 \<and>
         (st = JStr ''completed'' \<longrightarrow>
            pollTaskStatus P business fileId (pre @ fos # polls) fs =
              (map (\<lambda>f. if uf_id f = fileId then f\<lparr>uf_status := St_success\<rparr> else f) fs,
               concat (map (\<lambda>fos. fst (getTaskStatus P fos 0) @ [SetTimeoutPoll 2000]) pre)
                 @ fx @ [SetFiles fileId St_success,
                         ToastSuccess ''Document processing completed'' None,
                         LoadDocuments bid])) \<and>
         (st = JStr ''failed'' \<longrightarrow>
            snd (pollTaskStatus P business fileId (pre @ fos # polls) fs) =
              concat (map (\<lambda>fos. fst (getTaskStatus P fos 0) @ [SetTimeoutPoll 2000]) pre)
                @ fx @ [SetFiles fileId St_error, ToastError ''Document processing failed'' None]) \<and>
         (st \<noteq> JStr ''completed'' \<and> st \<noteq> JStr ''failed'' \<longrightarrow>
            pollTaskStatus P business fileId (pre @ [fos]) fs =
              (fs, concat (map (\<lambda>fos. fst (getTaskStatus P fos 0) @ [SetTimeoutPoll 2000]) pre)
                     @ fx @ [SetTimeoutPoll 2000]))"
proof -
  have i: "polling_interval = 2000" by (simp add: polling_interval_def)
  have pre: "pollTaskStatus P business fileId (pre @ rest) fs =
           (fst (pollTaskStatus P business fileId rest fs),
            concat (map (\<lambda>fos. fst (getTaskStatus P fos 0) @ [SetTimeoutPoll 2000]) pre)
              @ snd (pollTaskStatus P business fileId rest fs))" for rest
    using poll_prefix[OF assms(1), of business fileId rest fs] by (simp add: i)
  have c: ?thesis if "st = JStr ''completed''"
    using that pre[of "fos # polls"] poll_completed[OF assms(2) _ assms(4,5), of fileId polls fs]
      assms(3) i by simp
  have f: ?thesis if "st = JStr ''failed''"
    using that pre[of "fos # polls"] poll_failed[OF assms(2), of business fileId polls fs]
      assms(3) i by simp
  have n: ?thesis if "st \<noteq> JStr ''completed''" "st \<noteq> JStr ''failed''"
    using that pre[of "[fos]"] poll_nonterminal[OF assms(2,3) that, of business fileId "[]" fs] i
    by simp
  from c f n show ?thesis by blast
qed

theorem polling_stops_at_terminal_status_witness:
  "pollTaskStatus example_parse example_business ''f1''
     [reports_processing, reports_processing, reports_processing, reports_completed,
      reports_processing]
     [newFile (small_pdf, ''f1'')] =
   ([(newFile (small_pdf, ''f1''))\<lparr>uf_status := St_success\<rparr>],
    [SetTimeoutPoll 2000, SetTimeoutPoll 2000, SetTimeoutPoll 2000,
     SetFiles ''f1'' St_success,
     ToastSuccess ''Document processing completed'' None,
     LoadDocuments (JStr ''b1'')])"
proof -
  let ?p = "JObj [(''status'', JStr ''processing'')]"
  let ?c = "JObj [(''status'', JStr ''completed'')]"
  have p: "getTaskStatus example_parse reports_processing 0 = ([], Some (Inr ?p))"
    by (simp add: reports_processing_def status_request_def ok_def json_response_def
        example_parse_def)
  have h1: "\<forall>fos \<in> set [reports_processing, reports_processing, reports_processing].
      \<exists>fx v st. getTaskStatus example_parse fos 0 = (fx, Some (Inr v)) \<and>
             get v ''status'' = Inr st \<and> st \<noteq> JStr ''completed'' \<and> st \<noteq> JStr ''failed''"
    using p by simp
  have h2: "getTaskStatus example_parse reports_completed 0 = ([], Some (Inr ?c))"
    by (simp add: reports_completed_def status_request_def ok_def json_response_def
        example_parse_def)
  have h3: "get ?c ''status'' = Inr (JStr ''completed'')" by simp
  have h4: "truthy example_business" by (simp add: example_business_def)
  have h5: "get example_business ''id'' = Inr (JStr ''b1'')" by (simp add: example_business_def)
  show ?thesis
    using p polling_stops_at_terminal_status [OF h1 h2 h3 h4 h5, of "''f1''" "[reports_processing]"
        "[newFile (small_pdf, ''f1'')]"]
    by (simp add: newFile_def)
qed

lemma poll_failure:
  assumes "getTaskStatus P fos 0 = (fx, Some (Inl err))"
  shows "pollTaskStatus P business fileId (fos # polls) fs =
           (fst (pollTaskStatus P business fileId polls fs),
            fx @ SetTimeoutPoll (of_nat polling_interval * polling_backoffMultiplier)
               # snd (pollTaskStatus P business fileId polls fs))"
  using assms by (simp add: split_beta)

lemma getTaskStatus_not_repeated:
  assumes "\<not> (n < 3 \<and> (err_name e = ''AbortError'' \<or> str_includes (err_message e) ''fetch''))"
  shows "getTaskStatus P (Rejects e # fos) n = ([], Some (Inl e))"
  using assms by (auto simp: status_request_def)

lemma getTaskStatus_repeated:
  assumes "n < 3" "err_name e = ''AbortError'' \<or> str_includes (err_message e) ''fetch''"
  shows "getTaskStatus P (Rejects e # fos) n =
           (Sleep (1000 * (n + 1)) # fst (getTaskStatus P fos (n + 1)),
            snd (getTaskStatus P fos (n + 1)))"
  using assms by (auto simp: status_request_def split_beta)

lemma getTaskStatus_all_rejected:
  "3 - n < length es \<Longrightarrow>
     \<exists>fx e. getTaskStatus P (map Rejects es) n = (fx, Some (Inl e)) \<and> e \<in> set es"
proof (induction es arbitrary: n)
  case Nil
  then show ?case by simp
next
  case (Cons e es)
  show ?case
  proof (cases "n < 3 \<and> (err_name e = ''AbortError'' \<or> str_includes (err_message e) ''fetch'')")
    case True
    with Cons.prems have "3 - (n + 1) < length es" by (simp, arith)
    from Cons.IH[OF this] obtain fx e' where
      "getTaskStatus P (map Rejects es) (n + 1) = (fx, Some (Inl e'))" "e' \<in> set es" by blast
    with True show ?thesis by (simp add: status_request_def)
  next
    case False
    then show ?thesis by (auto simp: status_request_def)
  qed
qed

text \<open>
  C7, as the code has it. A failed status request never ends the polling, and it is
  repeated on two levels with different delays. A request that is rejected with an abort
  (the timeout) or with an error whose message contains \<open>fetch\<close> is repeated inside
  \<open>getTaskStatus\<close>, while \<open>retryCount < 3\<close>, after \<open>1000 * (retryCount + 1)\<close> ms, that is
  after 1, 2 and 3 seconds. A rejection of any other kind, or of the third repeat, makes
  \<open>getTaskStatus\<close> throw, and four rejected requests in a row always do. Whenever
  \<open>getTaskStatus\<close> throws, \<open>pollTaskStatus\<close> sets the timer for the next poll, after
  \<open>config.polling.interval * config.polling.backoffMultiplier\<close> = 3000 ms, and the run goes
  on with that poll.
\<close>

theorem failed_status_request_is_retried:
  "(n < 3 \<and> (err_name e = ''AbortError'' \<or> str_includes (err_message e) ''fetch'') \<longrightarrow>
      getTaskStatus P (Rejects e # later) n =
        (Sleep (1000 * (n + 1)) # fst (getTaskStatus P later (n + 1)),
         snd (getTaskStatus P later (n + 1)))) \<and>
   (\<not> (n < 3 \<and> (err_name e = ''AbortError'' \<or> str_includes (err_message e) ''fetch'')) \<longrightarrow>
      getTaskStatus P (Rejects e # later) n = ([], Some (Inl e))) \<and>
   (err_name e = ''AbortError'' \<or> str_includes (err_message e) ''fetch'' \<longrightarrow>
      getTaskStatus P [Rejects e, Rejects e, Rejects e, Rejects e] 0 =
        ([Sleep 1000, Sleep 2000, Sleep 3000], Some (Inl e))) \<and>
   (3 < length es \<longrightarrow>
      (\<exists>fx err. getTaskStatus P (map Rejects es) 0 = (fx, Some (Inl err)) \<and> err \<in> set es)) \<and>
   (\<forall>fx err. getTaskStatus P fos 0 = (fx, Some (Inl err)) \<longrightarrow>
      pollTaskStatus P business fileId (fos # polls) fs =
        (fst (pollTaskStatus P business fileId polls fs),
         fx @ SetTimeoutPoll (of_nat polling_interval * polling_backoffMultiplier)
            # snd (pollTaskStatus P business fileId polls fs))) \<and>
   of_nat polling_interval * polling_backoffMultiplier = (3000 :: rat)"
proof (intro conjI allI impI)
  assume "n < 3 \<and> (err_name e = ''AbortError'' \<or> str_includes (err_message e) ''fetch'')"
  then show "getTaskStatus P (Rejects e # later) n =
        (Sleep (1000 * (n + 1)) # fst (getTaskStatus P later (n + 1)),
         snd (getTaskStatus P later (n + 1)))"
    using getTaskStatus_repeated[of n e P later] by blast
next
  assume "\<not> (n < 3 \<and> (err_name e = ''AbortError'' \<or> str_includes (err_message e) ''fetch''))"
  then show "getTaskStatus P (Rejects e # later) n = ([], Some (Inl e))"
    by (rule getTaskStatus_not_repeated)
next
  assume r: "err_name e = ''AbortError'' \<or> str_includes (err_message e) ''fetch''"
  show "getTaskStatus P [Rejects e, Rejects e, Rejects e, Rejects e] 0 =
        ([Sleep 1000, Sleep 2000, Sleep 3000], Some (Inl e))"
    using r by (simp add: status_request_def)
next
  assume "3 < length es"
  then have "3 - 0 < length es" by simp
  from getTaskStatus_all_rejected[OF this]
  show "\<exists>fx err. getTaskStatus P (map Rejects es) 0 = (fx, Some (Inl err)) \<and> err \<in> set es" .
next
  fix fx err assume "getTaskStatus P fos 0 = (fx, Some (Inl err))"
  then show "pollTaskStatus P business fileId (fos # polls) fs =
        (fst (pollTaskStatus P business fileId polls fs),
         fx @ SetTimeoutPoll (of_nat polling_interval * polling_backoffMultiplier)
            # snd (pollTaskStatus P business fileId polls fs))"
    by (rule poll_failure)
next
  show "of_nat polling_interval * polling_backoffMultiplier = (3000 :: rat)"
    by (simp add: polling_interval_def polling_backoffMultiplier_def)
qed

theorem failed_status_request_is_retried_witness:
  "str_includes (err_message failed_to_fetch) ''fetch'' \<and>
   getTaskStatus example_parse (Rejects failed_to_fetch # reports_completed) 0 =
     ([Sleep 1000], Some (Inr (JObj [(''status'', JStr ''completed'')]))) \<and>
   pollTaskStatus example_parse example_business ''f1''
     [[Rejects failed_to_fetch, Rejects failed_to_fetch, Rejects failed_to_fetch,
       Rejects failed_to_fetch], reports_completed] [] =
   ([], [Sleep 1000, Sleep 2000, Sleep 3000, SetTimeoutPoll 3000,
         SetFiles ''f1'' St_success,
         ToastSuccess ''Document processing completed'' None,
         LoadDocuments (JStr ''b1'')])"
proof -
  have t: "str_includes (err_message failed_to_fetch) ''fetch''"
    by (simp add: failed_to_fetch_def)
  have g: "getTaskStatus example_parse reports_completed (0 + 1) =
      ([], Some (Inr (JObj [(''status'', JStr ''completed'')])))"
    by (simp add: reports_completed_def status_request_def ok_def json_response_def
        example_parse_def)
  have c: "pollTaskStatus example_parse example_business ''f1'' [reports_completed] [] =
     ([], [SetFiles ''f1'' St_success, ToastSuccess ''Document processing completed'' None,
           LoadDocuments (JStr ''b1'')])"
    by (simp add: reports_completed_def status_request_def ok_def json_response_def
        example_parse_def example_business_def)
  show ?thesis
    using t g c
      failed_status_request_is_retried [of 0 failed_to_fetch example_parse reports_completed "[]"
        "[Rejects failed_to_fetch, Rejects failed_to_fetch, Rejects failed_to_fetch,
          Rejects failed_to_fetch]" example_business "''f1''" "[reports_completed]" "[]"]
    by simp
qed

text \<open>
  C7 as it is stated fails for a network error that happens once: the request is
  repeated inside \<open>getTaskStatus\<close> after 1000 ms, not after 3000 ms, and when the repeat
  is answered no timer of \<open>pollTaskStatus\<close> is set at all.
\<close>

theorem network_error_retry_delay_counterexample:
  \<open>fetch_fails_once =
     [Rejects (JSError ''TypeError'' ''Failed to fetch''),
      Resolves (json_response 200 ''OK'' ''{"status":"completed"}'')] \<and>
   pollTaskStatus example_parse example_business ''f1'' [fetch_fails_once] [] =
     ([], [Sleep 1000,
           SetFiles ''f1'' St_success,
           ToastSuccess ''Document processing completed'' None,
           LoadDocuments (JStr ''b1'')]) \<and>
   of_nat polling_interval * polling_backoffMultiplier = (3000 :: rat) \<and>
   SetTimeoutPoll 3000 \<notin>
     set (snd (pollTaskStatus example_parse example_business ''f1'' [fetch_fails_once] []))\<close>
  by (simp add: fetch_fails_once_def status_request_def ok_def json_response_def
      example_parse_def example_business_def polling_interval_def polling_backoffMultiplier_def)

subsection \<open>Storage events from other tabs\<close>

text \<open>
  C8. For a storage event on the key \<open>auth_token\<close>: when the new value is \<open>null\<close> (the
  token was removed) the handler clears \<open>user\<close>; when a token was added (the new value is
  a non-empty string) and the tab has no \<open>user\<close>, then, if a profile is cached under
  \<open>user_profile\<close> (a non-empty text that parses to an object), that profile becomes
  \<open>user\<close> and the storage is left as it is, and if nothing is cached the session stays as
  it is.
\<close>

theorem storage_event_syncs_session:
  "(key e = Some ''auth_token'' \<and> newValue e = None \<longrightarrow>
      user (handleStorageChange P e s) = JNull) \<and>
   (\<forall>v p kvs. key e = Some ''auth_token'' \<and> newValue e = Some v \<and> v \<noteq> [] \<and>
       \<not> truthy (user s) \<and>
       store s ''user_profile'' = Some p \<and> p \<noteq> [] \<and> P p = Inr (JObj kvs) \<longrightarrow>
      user (handleStorageChange P e s) = JObj kvs \<and>
      store (handleStorageChange P e s) = store s) \<and>
   (\<forall>v. key e = Some ''auth_token'' \<and> newValue e = Some v \<and> v \<noteq> [] \<and>
       \<not> truthy (user s) \<and> store s ''user_profile'' = None \<longrightarrow>
      handleStorageChange P e s = s)"
  by (auto simp: handleStorageChange_def getUserProfile_def getItem_def)

theorem storage_event_syncs_session_witness:
  "user signed_in \<noteq> JNull \<and>
   user (handleStorageChange example_parse \<lparr>key = Some ''auth_token'', newValue = None\<rparr>
           signed_in) = JNull \<and>
   user (handleStorageChange example_parse \<lparr>key = Some ''auth_token'', newValue = Some ''tok''\<rparr>
           (signed_in\<lparr>user := JNull\<rparr>)) = example_profile"
  using storage_event_syncs_session
      [of "\<lparr>key = Some ''auth_token'', newValue = None\<rparr>" example_parse signed_in]
    storage_event_syncs_session
      [of "\<lparr>key = Some ''auth_token'', newValue = Some ''tok''\<rparr>" example_parse
          "signed_in\<lparr>user := JNull\<rparr>"]
  by (simp add: signed_in_def example_profile_def example_parse_def)

subsection \<open>Errors of the HTTP client wrappers\<close>

lemma starts_with_self_append: "starts_with (t @ s) t"
  by (induction t) auto

lemma str_includes_append: "str_includes (p @ t @ s) t"
proof (induction p)
  case Nil
  show ?case by (cases "t @ s") (use starts_with_self_append[of t s] in auto)
next
  case (Cons a p)
  then show ?case by simp
qed

lemma str_includes_suffix: "str_includes (p @ t) t"
  using str_includes_append[of p t "[]"] by simp

lemma starts_with_head: "starts_with s (c # t) \<Longrightarrow> c \<in> set s"
  by (cases s) auto

lemma str_includes_head: "str_includes s (c # t) \<Longrightarrow> c \<in> set s"
  by (induction s) (auto dest: starts_with_head)

lemma str_of_nat_digits: "set (str_of_nat n) \<subseteq> set ''0123456789''"
proof (induction n rule: str_of_nat.induct)
  case (1 n)
  have d: "''0123456789'' ! k \<in> set ''0123456789''" if "k < 10" for k
    using that nth_mem[of k "''0123456789''"] by simp
  show ?case
  proof (cases "n < 10")
    case True
    then show ?thesis using d[of n] by (subst str_of_nat.simps) simp
  next
    case False
    have "n mod 10 < 10" by simp
    with False 1 d[of "n mod 10"] show ?thesis by (subst str_of_nat.simps) simp
  qed
qed

lemma generic_message_no_fetch: "\<not> str_includes (''HTTP '' @ str_of_nat n) ''fetch''"
proof
  assume "str_includes (''HTTP '' @ str_of_nat n) ''fetch''"
  then have "CHR ''f'' \<in> set (''HTTP '' @ str_of_nat n)" by (rule str_includes_head)
  with str_of_nat_digits[of n] show False by auto
qed

text \<open>
  C9, as the code has it, for the three wrappers \<open>ChatAPI.handleResponse\<close>,
  \<open>BusinessAPI.handleResponse\<close> and \<open>DocumentAPI.getTaskStatus\<close> (the methods of \<open>AuthAPI\<close>
  and \<open>uploadDocument\<close> build their messages in other ways). For a non-2xx answer:
  when the body parses to a JSON object whose \<open>detail\<close> is a non-empty string, the error
  built is an \<open>Error\<close> with that string as its message; when the body parses (to a value
  other than \<open>null\<close>) and has no \<open>detail\<close>, or a falsy one, the message is generic and
  contains the status,
  \<open>HTTP <status>: <statusText>\<close> in \<open>ChatAPI\<close> and \<open>BusinessAPI\<close> and \<open>HTTP <status>\<close> in
  \<open>getTaskStatus\<close>; when the body does not parse, \<open>getTaskStatus\<close> builds the generic
  \<open>HTTP <status>\<close>, and \<open>ChatAPI\<close> and \<open>BusinessAPI\<close> build \<open>Unknown error\<close>.
  \<open>handleResponse\<close> throws the error it builds. \<open>getTaskStatus\<close> rejects with the error
  it builds at once, unless the message contains \<open>fetch\<close> and \<open>retryCount < 3\<close>: then it
  repeats the request after \<open>1000 * (retryCount + 1)\<close> ms. The generic message never
  contains \<open>fetch\<close>.
\<close>

theorem error_message_of_rejected_response:
  assumes "\<not> ok r"
  shows
   "(\<forall>kvs m. P (bodyText r) = Inr (JObj kvs) \<and> map_of kvs ''detail'' = Some (JStr m) \<and> m \<noteq> [] \<longrightarrow>
       ChatAPI_handleResponse P r = Inl (Error m) \<and>
       BusinessAPI_handleResponse P r = Inl (Error m) \<and>
       status_request P (Resolves r) = Caught (Error m)) \<and>
    (\<forall>v d. P (bodyText r) = Inr v \<and> get v ''detail'' = Inr d \<and> \<not> truthy d \<longrightarrow>
       ChatAPI_handleResponse P r =
         Inl (Error (''HTTP '' @ str_of_nat (status r) @ '': '' @ statusText r)) \<and>
       BusinessAPI_handleResponse P r =
         Inl (Error (''HTTP '' @ str_of_nat (status r) @ '': '' @ statusText r)) \<and>
       status_request P (Resolves r) = Caught (Error (''HTTP '' @ str_of_nat (status r)))) \<and>
    (\<forall>e. P (bodyText r) = Inl e \<longrightarrow>
       ChatAPI_handleResponse P r = Inl (Error ''Unknown error'') \<and>
       BusinessAPI_handleResponse P r = Inl (Error ''Unknown error'') \<and>
       status_request P (Resolves r) = Caught (Error (''HTTP '' @ str_of_nat (status r)))) \<and>
    (\<forall>m. status_request P (Resolves r) = Caught (Error m) \<and>
         \<not> (n < 3 \<and> str_includes m ''fetch'') \<longrightarrow>
       getTaskStatus P (Resolves r # later) n = ([], Some (Inl (Error m)))) \<and>
    (\<forall>m. status_request P (Resolves r) = Caught (Error m) \<and> n < 3 \<and> str_includes m ''fetch'' \<longrightarrow>
       getTaskStatus P (Resolves r # later) n =
         (Sleep (1000 * (n + 1)) # fst (getTaskStatus P later (n + 1)),
          snd (getTaskStatus P later (n + 1)))) \<and>
    \<not> str_includes (''HTTP '' @ str_of_nat (status r)) ''fetch'' \<and>
    str_includes (''HTTP '' @ str_of_nat (status r) @ '': '' @ statusText r) (str_of_nat (status r)) \<and>
    str_includes (''HTTP '' @ str_of_nat (status r)) (str_of_nat (status r))"
proof -
  have detail: "ChatAPI_handleResponse P r = Inl (Error m) \<and>
       BusinessAPI_handleResponse P r = Inl (Error m) \<and>
       status_request P (Resolves r) = Caught (Error m)"
    if "P (bodyText r) = Inr (JObj kvs)" "map_of kvs ''detail'' = Some (JStr m)" "m \<noteq> []"
    for kvs m
    using assms that
    by (simp add: ChatAPI_handleResponse_def BusinessAPI_handleResponse_def status_request_def)
  have generic: "ChatAPI_handleResponse P r =
         Inl (Error (''HTTP '' @ str_of_nat (status r) @ '': '' @ statusText r)) \<and>
       BusinessAPI_handleResponse P r =
         Inl (Error (''HTTP '' @ str_of_nat (status r) @ '': '' @ statusText r)) \<and>
       status_request P (Resolves r) = Caught (Error (''HTTP '' @ str_of_nat (status r)))"
    if "P (bodyText r) = Inr v" "get v ''detail'' = Inr d" "\<not> truthy d" for v d
    using assms that
    by (simp add: ChatAPI_handleResponse_def BusinessAPI_handleResponse_def status_request_def)
  have unparsable: "ChatAPI_handleResponse P r = Inl (Error ''Unknown error'') \<and>
       BusinessAPI_handleResponse P r = Inl (Error ''Unknown error'') \<and>
       status_request P (Resolves r) = Caught (Error (''HTTP '' @ str_of_nat (status r)))"
    if "P (bodyText r) = Inl e" for e
    using assms that
    by (simp add: ChatAPI_handleResponse_def BusinessAPI_handleResponse_def status_request_def)
  have thrown: "getTaskStatus P (Resolves r # later) n = ([], Some (Inl (Error m)))"
    if "status_request P (Resolves r) = Caught (Error m)" "\<not> (n < 3 \<and> str_includes m ''fetch'')"
    for m
    using that by (auto simp: Error_def)
  have repeated: "getTaskStatus P (Resolves r # later) n =
         (Sleep (1000 * (n + 1)) # fst (getTaskStatus P later (n + 1)),
          snd (getTaskStatus P later (n + 1)))"
    if "status_request P (Resolves r) = Caught (Error m)" "n < 3" "str_includes m ''fetch''"
    for m
    using that by (simp add: Error_def split_beta)
  show ?thesis
    using detail generic unparsable thrown repeated generic_message_no_fetch[of "status r"]
      str_includes_append[of "''HTTP ''" "str_of_nat (status r)" "'': '' @ statusText r"]
      str_includes_suffix[of "''HTTP ''" "str_of_nat (status r)"]
    by blast
qed

theorem error_message_of_rejected_response_witness:
  \<open>\<not> ok (json_response 404 ''Not Found'' ''{"detail":"Task not found"}'') \<and>
   ChatAPI_handleResponse example_parse
     (json_response 404 ''Not Found'' ''{"detail":"Task not found"}'') =
     Inl (Error ''Task not found'') \<and>
   getTaskStatus example_parse
     [Resolves (json_response 404 ''Not Found'' ''{"detail":"Task not found"}'')] 0 =
     ([], Some (Inl (Error ''Task not found''))) \<and>
   getTaskStatus example_parse
     (Resolves (json_response 404 ''Not Found'' ''{"detail":"could not fetch task"}'')
        # reports_completed) 0 =
     ([Sleep 1000], Some (Inr (JObj [(''status'', JStr ''completed'')]))) \<and>
   BusinessAPI_handleResponse example_parse (json_response 500 ''Internal Server Error'' ''{}'') =
     Inl (Error ''HTTP 500: Internal Server Error'') \<and>
   status_request example_parse (Resolves (html_response 502 ''Bad Gateway'')) =
     Caught (Error ''HTTP 502'')\<close>
proof -
  let ?nf = \<open>json_response 404 ''Not Found'' ''{"detail":"Task not found"}''\<close>
  let ?cf = \<open>json_response 404 ''Not Found'' ''{"detail":"could not fetch task"}''\<close>
  let ?em = \<open>json_response 500 ''Internal Server Error'' ''{}''\<close>
  have h: "\<not> ok ?nf" by (simp add: ok_def json_response_def)
  have c: "\<not> ok ?cf" by (simp add: ok_def json_response_def)
  have m: "\<not> ok ?em" by (simp add: ok_def json_response_def)
  have g: "\<not> ok (html_response 502 ''Bad Gateway'')"
    by (simp add: ok_def html_response_def)
  have n: "str_of_nat 502 = ''502''" "str_of_nat 500 = ''500''" by (simp_all add: str_of_nat.simps)
  have p1: "example_parse (bodyText ?nf) = Inr (JObj [(''detail'', JStr ''Task not found'')])"
    by (simp add: json_response_def example_parse_def)
  have p2: "example_parse (bodyText ?cf) = Inr (JObj [(''detail'', JStr ''could not fetch task'')])"
    by (simp add: json_response_def example_parse_def)
  have p3: "example_parse (bodyText ?em) = Inr (JObj [])"
    by (simp add: json_response_def example_parse_def)
  have p4: "example_parse (bodyText (html_response 502 ''Bad Gateway'')) =
      Inl (JSError ''SyntaxError'' ''Unexpected token'')"
    by (simp add: html_response_def example_parse_def)
  have r: "getTaskStatus example_parse reports_completed (0 + 1) =
      ([], Some (Inr (JObj [(''status'', JStr ''completed'')])))"
    by (simp add: reports_completed_def status_request_def ok_def json_response_def
        example_parse_def)
  have a: "ChatAPI_handleResponse example_parse ?nf = Inl (Error ''Task not found'') \<and>
      status_request example_parse (Resolves ?nf) = Caught (Error ''Task not found'')"
    using p1 error_message_of_rejected_response [OF h, of example_parse 0 "[]"] by simp
  have a': "getTaskStatus example_parse [Resolves ?nf] 0 = ([], Some (Inl (Error ''Task not found'')))"
    using a error_message_of_rejected_response [OF h, of example_parse 0 "[]"] by simp
  have b: "status_request example_parse (Resolves ?cf) = Caught (Error ''could not fetch task'')"
    using p2 error_message_of_rejected_response [OF c, of example_parse 0 reports_completed] by simp
  have b': "getTaskStatus example_parse (Resolves ?cf # reports_completed) 0 =
      ([Sleep 1000], Some (Inr (JObj [(''status'', JStr ''completed'')])))"
    using b r error_message_of_rejected_response [OF c, of example_parse 0 reports_completed] by simp
  have d: "BusinessAPI_handleResponse example_parse ?em = Inl (Error ''HTTP 500: Internal Server Error'')"
    using p3 n error_message_of_rejected_response [OF m, of example_parse 0 "[]"]
    by (simp add: json_response_def)
  have e: "status_request example_parse (Resolves (html_response 502 ''Bad Gateway'')) =
      Caught (Error ''HTTP 502'')"
    using p4 n error_message_of_rejected_response [OF g, of example_parse 0 "[]"]
    by (simp add: html_response_def)
  show ?thesis using h a a' b' d e by simp
qed

text \<open>
  C9 as it is stated fails for an answer whose body is not JSON, here the HTML page of a
  502: \<open>ChatAPI\<close> and \<open>BusinessAPI\<close> throw \<open>Unknown error\<close>, which does not contain the
  status.
\<close>

theorem unparsable_error_body_counterexample:
  "\<not> ok (html_response 502 ''Bad Gateway'') \<and>
   example_parse (bodyText (html_response 502 ''Bad Gateway'')) =
     Inl (JSError ''SyntaxError'' ''Unexpected token'') \<and>
   ChatAPI_handleResponse example_parse (html_response 502 ''Bad Gateway'') =
     Inl (Error ''Unknown error'') \<and>
   BusinessAPI_handleResponse example_parse (html_response 502 ''Bad Gateway'') =
     Inl (Error ''Unknown error'') \<and>
   str_of_nat 502 = ''502'' \<and>
   \<not> str_includes ''Unknown error'' ''502''"
  by (simp add: ChatAPI_handleResponse_def BusinessAPI_handleResponse_def html_response_def
      ok_def example_parse_def str_of_nat.simps)

subsection \<open>The business check after login\<close>

lemma BusinessAPI_handleResponse_not_ok:
  "\<not> ok r \<Longrightarrow> \<exists>e. BusinessAPI_handleResponse P r = Inl e"
  by (auto simp: BusinessAPI_handleResponse_def Let_def split: sum.splits)

text \<open>
  C10, as the code has it. \<open>hasRegisteredBusiness\<close> never throws: for every outcome of the
  request it returns a value. It returns \<open>false\<close> when the request is rejected, when the
  answer is not 2xx, when \<open>handleResponse\<close> throws for any other reason, and when
  \<open>has_business\<close> cannot be read. For a 2xx answer whose body is a JSON object it returns
  the property \<open>has_business\<close> as the backend sent it: a boolean when the backend sends
  one, \<open>undefined\<close> when it is missing. \<open>checkBusinessRegistrationAndRedirect\<close> navigates to
  \<open>/dashboard\<close> when the value returned is truthy and to \<open>/onboarding\<close> otherwise, so a
  failed check after login ends on \<open>/onboarding\<close> and the error is not shown.
\<close>

theorem hasRegisteredBusiness_never_throws:
  "(\<exists>v. hasRegisteredBusiness P fo = Inr v) \<and>
   (\<forall>e. fo = Rejects e \<longrightarrow> hasRegisteredBusiness P fo = Inr (JBool False)) \<and>
   (\<forall>r. fo = Resolves r \<and> \<not> ok r \<longrightarrow> hasRegisteredBusiness P fo = Inr (JBool False)) \<and>
   (\<forall>r e. fo = Resolves r \<and> BusinessAPI_handleResponse P r = Inl e \<longrightarrow>
      hasRegisteredBusiness P fo = Inr (JBool False)) \<and>
   (\<forall>r data e. fo = Resolves r \<and> BusinessAPI_handleResponse P r = Inr data \<and>
      get data ''has_business'' = Inl e \<longrightarrow> hasRegisteredBusiness P fo = Inr (JBool False)) \<and>
   (\<forall>r kvs. fo = Resolves r \<and> ok r \<and> P (bodyText r) = Inr (JObj kvs) \<longrightarrow>
      hasRegisteredBusiness P fo =
        Inr (case map_of kvs ''has_business'' of None \<Rightarrow> JUndef | Some v \<Rightarrow> v)) \<and>
   (\<forall>r kvs b. fo = Resolves r \<and> ok r \<and> P (bodyText r) = Inr (JObj kvs) \<and>
      map_of kvs ''has_business'' = Some (JBool b) \<longrightarrow> hasRegisteredBusiness P fo = Inr (JBool b)) \<and>
   (\<forall>v. hasRegisteredBusiness P fo = Inr v \<longrightarrow>
      checkBusinessRegistrationAndRedirect P fo =
        [RouterPush (if truthy v then ''/dashboard'' else ''/onboarding'')]) \<and>
   (hasRegisteredBusiness P fo = Inr (JBool False) \<longrightarrow>
      checkBusinessRegistrationAndRedirect P fo = [RouterPush ''/onboarding''])"
  using BusinessAPI_handleResponse_not_ok[of _ P]
  by (auto simp: hasRegisteredBusiness_def checkBusinessRegistrationAndRedirect_def Let_def
      BusinessAPI_handleResponse_def split: sum.splits fetch_outcome.splits)

theorem hasRegisteredBusiness_never_throws_witness:
  "hasRegisteredBusiness example_parse (Rejects failed_to_fetch) = Inr (JBool False) \<and>
   hasRegisteredBusiness example_parse (Resolves (html_response 502 ''Bad Gateway'')) =
     Inr (JBool False) \<and>
   checkBusinessRegistrationAndRedirect example_parse (Resolves (html_response 502 ''Bad Gateway'')) =
     [RouterPush ''/onboarding''] \<and>
   snd (snd (login example_parse example_stringify accepted_login (Rejects failed_to_fetch)
               signed_out)) =
     [ToastSuccess ''Welcome back!'' (Some ''Logged in as a@b.c''), RouterPush ''/onboarding''] \<and>
   hasRegisteredBusiness example_parse one_business = Inr (JBool True)"
proof -
  let ?bad = "Resolves (html_response 502 ''Bad Gateway'')"
  let ?one = \<open>json_response 200 ''OK'' ''{"has_business":true}''\<close>
  have g: "\<not> ok (html_response 502 ''Bad Gateway'')"
    by (simp add: ok_def html_response_def)
  have a: "hasRegisteredBusiness example_parse (Rejects failed_to_fetch) = Inr (JBool False)"
    using hasRegisteredBusiness_never_throws [of example_parse "Rejects failed_to_fetch"] by blast
  have a': "checkBusinessRegistrationAndRedirect example_parse (Rejects failed_to_fetch) =
      [RouterPush ''/onboarding'']"
    using a hasRegisteredBusiness_never_throws [of example_parse "Rejects failed_to_fetch"] by blast
  have b: "hasRegisteredBusiness example_parse ?bad = Inr (JBool False)"
    using g hasRegisteredBusiness_never_throws [of example_parse ?bad] by blast
  have b': "checkBusinessRegistrationAndRedirect example_parse ?bad = [RouterPush ''/onboarding'']"
    using b hasRegisteredBusiness_never_throws [of example_parse ?bad] by blast
  have o1: "ok ?one" by (simp add: ok_def json_response_def)
  have o2: "example_parse (bodyText ?one) = Inr (JObj [(''has_business'', JBool True)])"
    by (simp add: json_response_def example_parse_def)
  have o3: "map_of [(''has_business'', JBool True)] ''has_business'' = Some (JBool True)" by simp
  have c: "hasRegisteredBusiness example_parse one_business = Inr (JBool True)"
    using o1 o2 o3 hasRegisteredBusiness_never_throws [of example_parse "Resolves ?one"]
    unfolding one_business_def by blast
  have l: "snd (snd (login example_parse example_stringify accepted_login (Rejects failed_to_fetch)
               signed_out)) =
     ToastSuccess ''Welcome back!'' (Some ''Logged in as a@b.c'')
       # checkBusinessRegistrationAndRedirect example_parse (Rejects failed_to_fetch)"
    by (simp add: login_def AuthAPI_login_def AuthAPI_handleResponse_def accepted_login_def
        json_response_def ok_def example_parse_def signed_out_def)
  show ?thesis using a a' b b' c l by simp
qed

text \<open>
  C10 as it is stated fails for a 2xx answer without a boolean \<open>has_business\<close>: for the
  body \<open>{}\<close> the value returned is \<open>undefined\<close>, and for \<open>{"has_business":"no"}\<close> it is the
  string \<open>no\<close>, which sends the user to \<open>/dashboard\<close>.
\<close>

theorem hasRegisteredBusiness_not_boolean_counterexample:
  \<open>ok (json_response 200 ''OK'' ''{}'') \<and>
   example_parse ''{}'' = Inr (JObj []) \<and>
   hasRegisteredBusiness example_parse (Resolves (json_response 200 ''OK'' ''{}'')) = Inr JUndef \<and>
   JUndef \<noteq> JBool True \<and> JUndef \<noteq> JBool False \<and>
   example_parse ''{"has_business":"no"}'' = Inr (JObj [(''has_business'', JStr ''no'')]) \<and>
   hasRegisteredBusiness example_parse
     (Resolves (json_response 200 ''OK'' ''{"has_business":"no"}'')) = Inr (JStr ''no'') \<and>
   checkBusinessRegistrationAndRedirect example_parse
     (Resolves (json_response 200 ''OK'' ''{"has_business":"no"}'')) = [RouterPush ''/dashboard'']\<close>
  by (simp add: json_response_def ok_def example_parse_def hasRegisteredBusiness_def
      BusinessAPI_handleResponse_def checkBusinessRegistrationAndRedirect_def)

end
